theory Spec2Isabelle
  imports Main "HOL-Library.Sublist"
begin

section \<open>Record schema (types/university.ts)\<close>

text \<open>
  \<^verbatim>\<open>export type DegreeLevel = 'bachelor' | 'masters' | 'phd';\<close>
\<close>

datatype DegreeLevel = Bachelor | Masters | PhD

definition degreeLevels :: "DegreeLevel list" where
  "degreeLevels = [Bachelor, Masters, PhD]"

text \<open>
  The interfaces \<open>Program\<close>, \<open>Scholarship\<close>, \<open>Fees\<close> and \<open>University\<close>. Field names are
  the source's, with a prefix where two interfaces share a name (\<open>name\<close>) and \<open>uid\<close> for
  \<open>id\<close>. A JavaScript \<open>number\<close> is only stored and handed back by the code modelled here
  (no arithmetic is done on it), so it is an \<open>int\<close>.

  The declared type of \<open>programs\<close> and \<open>scholarships\<close> is a total
  \<open>Record<DegreeLevel, _>\<close>, but the records come out of \<open>JSON.parse(raw) as University[]\<close>
  unchecked, and the code itself guards against a missing level
  (\<open>university.programs?.[level]\<close>, \<open>Array.isArray(...)\<close>). They are therefore partial maps:
  \<open>None\<close> is a key the object does not have. An optional property (\<open>overview?\<close>,
  \<open>restrictedCountries?\<close>) is an \<open>option\<close>: \<open>None\<close> is \<open>undefined\<close> or absent, which
  JSON serialisation does not distinguish.

  \<open>name\<close> and \<open>location\<close> are declared as required strings, and the filter calls
  \<open>.toLowerCase()\<close> on them with no guard: on a record that came out of the slot
  without one of them the call throws. They are \<open>option\<close>s as well, \<open>None\<close> for a record
  that lacks the property. The remaining properties are only copied or compared with
  \<open>===\<close>, so they keep their declared types.
\<close>

type_synonym number = int

record Program =
  pr_name :: string
  pr_duration :: string
  pr_delivery :: string

record Scholarship =
  sch_name :: string
  sch_amount :: string
  sch_eligibility :: string
  sch_deadline :: string

record Fees =
  application :: number
  averageTuition :: "DegreeLevel \<rightharpoonup> number"

record University =
  uid :: string
  name :: "string option"
  portalUrl :: string
  location :: "string option"
  overview :: "string option"
  fees :: Fees
  programs :: "DegreeLevel \<rightharpoonup> Program list"
  scholarships :: "DegreeLevel \<rightharpoonup> Scholarship list"
  restrictedCountries :: "string list option"

text \<open>
  \<open>Partial<University>\<close>, the payload of create and update: every property may be missing
  (\<open>None\<close>). The tests of create (\<open>!payload.name\<close>, \<open>payload.id ?? ...\<close>) and the \<open>id\<close>
  and \<open>restrictedCountries\<close> of update treat a property that is present with the value
  \<open>undefined\<close> like a missing one. The object spread of update does not: it copies such a
  property. \<open>overview\<close> is the one spread property whose type admits \<open>undefined\<close> in a
  \<open>University\<close>, so its payload field has three states: \<open>None\<close> (no such property),
  \<open>Some None\<close> (present, \<open>undefined\<close>) and \<open>Some (Some s)\<close>. For the required
  properties, an update payload that has one as \<open>undefined\<close> would store an object that is
  not a \<open>University\<close> as the interface declares it; such payloads are not values of this
  record.
\<close>

record UniversityPayload =
  p_id :: "string option"
  p_name :: "string option"
  p_portalUrl :: "string option"
  p_location :: "string option"
  p_overview :: "string option option"
  p_fees :: "Fees option"
  p_programs :: "(DegreeLevel \<rightharpoonup> Program list) option"
  p_scholarships :: "(DegreeLevel \<rightharpoonup> Scholarship list) option"
  p_restrictedCountries :: "string list option"

text \<open>\<^verbatim>\<open>interface UniversityFilters { search?: string; location?: string; degreeLevel?: DegreeLevel }\<close>\<close>

record UniversityFilters =
  f_search :: "string option"
  f_location :: "string option"
  f_degreeLevel :: "DegreeLevel option"

section \<open>String built-ins\<close>

text \<open>
  \<open>String.prototype.trim\<close> and \<open>includes\<close>. A \<open>char\<close> is a code unit below 256; the
  white space among these is tab, line feed, vertical tab, form feed, carriage return,
  space and no-break space.

  \<open>String.prototype.toLowerCase\<close> is not defined here. It is not a map over code units
  (one code unit can become two, and a letter's lower case can depend on its position),
  so the functions that call it take it as their first argument \<open>toLowerCase\<close>, a
  function from strings to strings of which nothing is assumed.
\<close>

definition isWhiteSpace :: "char \<Rightarrow> bool" where
  "isWhiteSpace c \<longleftrightarrow> (of_char c :: nat) \<in> {9, 10, 11, 12, 13, 32, 160}"

definition trimStart :: "string \<Rightarrow> string" where
  "trimStart s = dropWhile isWhiteSpace s"

definition trimEnd :: "string \<Rightarrow> string" where
  "trimEnd s = rev (dropWhile isWhiteSpace (rev s))"

definition trim :: "string \<Rightarrow> string" where
  "trim s = trimEnd (trimStart s)"

text \<open>
  A template literal renders a number in decimal: \<open>showNat\<close> is that rendering of a
  natural number. \<open>digit\<close> is only ever applied to a number below ten.
\<close>

definition digit :: "nat \<Rightarrow> char" where
  "digit d = ''0123456789'' ! d"

function showNat :: "nat \<Rightarrow> string" where
  "showNat n = (if n < 10 then [digit n] else showNat (n div 10) @ [digit (n mod 10)])"
  by pat_completeness auto
termination
  by (relation "measure (\<lambda>n. n)") auto

declare showNat.simps [simp del]

text \<open>\<open>t.includes(s)\<close>: \<open>s\<close> occurs in \<open>t\<close> at some position.\<close>

fun includesStr :: "string \<Rightarrow> string \<Rightarrow> bool" where
  "includesStr [] s \<longleftrightarrow> s = []"
| "includesStr (c # cs) s \<longleftrightarrow> prefix s (c # cs) \<or> includesStr cs s"

section \<open>Array built-ins\<close>

text \<open>\<open>findIndex\<close> and \<open>indexOf\<close> return \<open>-1\<close> when nothing is found.\<close>

fun findIndex :: "('a \<Rightarrow> bool) \<Rightarrow> 'a list \<Rightarrow> int" where
  "findIndex P [] = -1"
| "findIndex P (x # xs) =
     (if P x then 0 else (let i = findIndex P xs in if i = -1 then -1 else i + 1))"

definition indexOf :: "'a list \<Rightarrow> 'a \<Rightarrow> int" where
  "indexOf arr x = findIndex (\<lambda>y. y = x) arr"

text \<open>\<open>arr.filter((value, index, arr) => ...)\<close>: the callback also sees the index.\<close>

definition filterIndexed :: "('a \<Rightarrow> int \<Rightarrow> bool) \<Rightarrow> 'a list \<Rightarrow> 'a list" where
  "filterIndexed P arr =
     map fst (filter (\<lambda>(x, i). P x i) (zip arr (map int [0 ..< length arr])))"

section \<open>Local university service (services/universityService.ts, local variant)\<close>

text \<open>
  \<^verbatim>\<open>const clone = <T>(value: T): T => JSON.parse(JSON.stringify(value));\<close>
  A JSON round trip of a value of the types above gives an equal value: what JSON drops
  (properties that are \<open>undefined\<close>) is what \<open>None\<close> already stands for.
\<close>

definition clone :: "'a \<Rightarrow> 'a" where
  "clone v = v"

text \<open>
  \<^verbatim>\<open>
  const normalizeUniversity = (uni: University): University => ({
    ...uni,
    restrictedCountries: (uni.restrictedCountries ?? []).map((country) => country.trim()).filter(Boolean)
  });
  \<close>
\<close>

definition normalizeUniversity :: "University \<Rightarrow> University" where
  "normalizeUniversity uni =
     uni\<lparr>restrictedCountries :=
       Some (filter (\<lambda>country. country \<noteq> [])
              (map (\<lambda>country. trim country)
                (case restrictedCountries uni of None \<Rightarrow> [] | Some l \<Rightarrow> l)))\<rparr>"

text \<open>
  The state the module works on: its variable \<open>inMemoryStore\<close> and the slot
  \<open>manara_universities\<close> of \<open>window.localStorage\<close>. \<open>localStorage = None\<close> is an
  environment without \<open>window\<close> (\<open>getStorage()\<close> returns \<open>null\<close>). The slot is kept as
  what \<open>readStore\<close> makes of its content: \<open>NoItem\<close> when \<open>getItem\<close> gives \<open>null\<close> or the
  empty string (\<open>!raw\<close>), \<open>Corrupt\<close> when the \<open>try\<close> block throws on it (\<open>JSON.parse\<close>
  fails, or the value is not an array of records), and \<open>Parsed xs\<close> when it is the JSON
  text of the records \<open>xs\<close>.
\<close>

datatype slot = NoItem | Corrupt | Parsed "University list"

record store =
  inMemoryStore :: "University list"
  localStorage :: "slot option"

text \<open>
  \<^verbatim>\<open>
  let inMemoryStore: University[] = clone(
    (seedUniversities satisfies University[]).map((uni) => normalizeUniversity(uni)));
  \<close>
  The bundled dataset \<open>data/universities.json\<close> is a parameter, and so is what the browser
  holds in the slot when the module is loaded.
\<close>

definition initialStore :: "University list \<Rightarrow> slot option \<Rightarrow> store" where
  "initialStore seedUniversities ls =
     \<lparr>inMemoryStore = clone (map (\<lambda>uni. normalizeUniversity uni) seedUniversities),
      localStorage = ls\<rparr>"

text \<open>
  \<^verbatim>\<open>
  const readStore = (): University[] => {
    const storage = getStorage();
    if (!storage) { return clone(inMemoryStore); }
    const raw = storage.getItem(STORAGE_KEY);
    if (!raw) {
      storage.setItem(STORAGE_KEY, JSON.stringify(inMemoryStore));
      return clone(inMemoryStore);
    }
    try {
      const parsed = JSON.parse(raw) as University[];
      inMemoryStore = parsed.map((uni) => normalizeUniversity(uni));
      return clone(inMemoryStore);
    } catch {
      storage.removeItem(STORAGE_KEY);
      storage.setItem(STORAGE_KEY, JSON.stringify(inMemoryStore));
      return clone(inMemoryStore);
    }
  };
  \<close>
\<close>

definition readStore :: "store \<Rightarrow> University list \<times> store" where
  "readStore s =
     (case localStorage s of
        None \<Rightarrow> (clone (inMemoryStore s), s)
      | Some NoItem \<Rightarrow>
          (clone (inMemoryStore s), s\<lparr>localStorage := Some (Parsed (inMemoryStore s))\<rparr>)
      | Some (Parsed parsed) \<Rightarrow>
          (let m = map (\<lambda>uni. normalizeUniversity uni) parsed
           in (clone m, s\<lparr>inMemoryStore := m\<rparr>))
      | Some Corrupt \<Rightarrow>
          (clone (inMemoryStore s), s\<lparr>localStorage := Some (Parsed (inMemoryStore s))\<rparr>))"

text \<open>
  \<^verbatim>\<open>
  const writeStore = (data: University[]) => {
    const normalized = data.map((uni) => normalizeUniversity(uni));
    inMemoryStore = clone(normalized);
    const storage = getStorage();
    if (storage) { storage.setItem(STORAGE_KEY, JSON.stringify(inMemoryStore)); }
  };
  \<close>
\<close>

definition writeStore :: "University list \<Rightarrow> store \<Rightarrow> store" where
  "writeStore data s =
     (let normalized = map (\<lambda>uni. normalizeUniversity uni) data;
          m = clone normalized
      in \<lparr>inMemoryStore = m,
          localStorage = (case localStorage s of None \<Rightarrow> None | Some _ \<Rightarrow> Some (Parsed m))\<rparr>)"

text \<open>
  \<^verbatim>\<open>
  const filterUniversities = (universities: University[], filters?: UniversityFilters) => {
    if (!filters) return universities;
    return universities.filter((university) => {
      const matchesSearch = filters.search
        ? university.name.toLowerCase().includes(filters.search.toLowerCase()) : true;
      const matchesLocation = filters.location
        ? university.location.toLowerCase() === filters.location.toLowerCase() : true;
      const matchesDegree = filters.degreeLevel
        ? Array.isArray(university.programs?.[filters.degreeLevel]) &&
          university.programs[filters.degreeLevel].length > 0
        : true;
      return matchesSearch && matchesLocation && matchesDegree;
    });
  };
  \<close>
  A string is truthy when it is not empty; the three degree levels are truthy.

  \<open>university.name.toLowerCase()\<close> throws a \<open>TypeError\<close> when the record has no
  \<open>name\<close>, and so does the call on \<open>location\<close>; \<open>programs\<close> is guarded and cannot throw.
  The three constants are computed one after the other, before the \<open>&&\<close>, so a call that
  throws does so whatever the other two tests give. \<open>filterArray\<close> is
  \<open>Array.prototype.filter\<close> with a callback that may throw: the first exception ends it.
\<close>

datatype error = ValidationError | NotFound | TypeError

definition truthy :: "string option \<Rightarrow> bool" where
  "truthy v \<longleftrightarrow> (case v of None \<Rightarrow> False | Some s \<Rightarrow> s \<noteq> [])"

definition matchesSearch ::
  "(string \<Rightarrow> string) \<Rightarrow> UniversityFilters \<Rightarrow> University \<Rightarrow> error + bool" where
  "matchesSearch toLowerCase filters university =
     (if truthy (f_search filters)
      then (case name university of
              None \<Rightarrow> Inl TypeError
            | Some n \<Rightarrow> Inr (includesStr (toLowerCase n) (toLowerCase (the (f_search filters)))))
      else Inr True)"

definition matchesLocation ::
  "(string \<Rightarrow> string) \<Rightarrow> UniversityFilters \<Rightarrow> University \<Rightarrow> error + bool" where
  "matchesLocation toLowerCase filters university =
     (if truthy (f_location filters)
      then (case location university of
              None \<Rightarrow> Inl TypeError
            | Some l \<Rightarrow> Inr (toLowerCase l = toLowerCase (the (f_location filters))))
      else Inr True)"

definition matchesDegree :: "UniversityFilters \<Rightarrow> University \<Rightarrow> bool" where
  "matchesDegree filters university =
     (case f_degreeLevel filters of
        Some level \<Rightarrow>
          (case programs university level of
             None \<Rightarrow> False
           | Some ps \<Rightarrow> length ps > 0)
      | None \<Rightarrow> True)"

definition matches ::
  "(string \<Rightarrow> string) \<Rightarrow> UniversityFilters \<Rightarrow> University \<Rightarrow> error + bool" where
  "matches toLowerCase filters university =
     (case matchesSearch toLowerCase filters university of
        Inl e \<Rightarrow> Inl e
      | Inr ms \<Rightarrow>
          (case matchesLocation toLowerCase filters university of
             Inl e \<Rightarrow> Inl e
           | Inr ml \<Rightarrow> Inr (ms \<and> ml \<and> matchesDegree filters university)))"

fun filterArray :: "('a \<Rightarrow> error + bool) \<Rightarrow> 'a list \<Rightarrow> error + 'a list" where
  "filterArray callback [] = Inr []"
| "filterArray callback (x # xs) =
     (case callback x of
        Inl e \<Rightarrow> Inl e
      | Inr keep \<Rightarrow>
          (case filterArray callback xs of
             Inl e \<Rightarrow> Inl e
           | Inr rest \<Rightarrow> Inr (if keep then x # rest else rest)))"

definition filterUniversities ::
  "(string \<Rightarrow> string) \<Rightarrow> University list \<Rightarrow> UniversityFilters option
     \<Rightarrow> error + University list" where
  "filterUniversities toLowerCase universities filters =
     (case filters of
        None \<Rightarrow> Inr universities
      | Some fs \<Rightarrow> filterArray (\<lambda>university. matches toLowerCase fs university) universities)"

text \<open>
  The exported operations. Each returns what the promise settles with (\<open>Inl\<close> for a
  rejection) and the state it leaves; \<open>delay\<close> only postpones the resolution. The
  errors the module throws itself are
  \<open>new Error('Name, portal link, and location are required')\<close> (\<open>ValidationError\<close>) and
  \<open>new Error('University not found')\<close> (\<open>NotFound\<close>).
\<close>

definition getUniversities ::
  "(string \<Rightarrow> string) \<Rightarrow> UniversityFilters option \<Rightarrow> store
     \<Rightarrow> (error + University list) \<times> store" where
  "getUniversities toLowerCase filters s =
     (let (universities, s') = readStore s
      in (filterUniversities toLowerCase universities filters, s'))"

definition getUniversity :: "string \<Rightarrow> store \<Rightarrow> (error + University) \<times> store" where
  "getUniversity i s =
     (let (universities, s') = readStore s
      in case find (\<lambda>u. uid u = i) universities of
           None \<Rightarrow> (Inl NotFound, s')
         | Some university \<Rightarrow> (Inr university, s'))"

text \<open>
  \<^verbatim>\<open>
  const normalizeRestrictedCountries = (list?: string[]) =>
    (list ?? [])
      .map((country) => country.trim())
      .filter((country, index, arr) => country && arr.indexOf(country) === index);
  \<close>
\<close>

definition normalizeRestrictedCountries :: "string list option \<Rightarrow> string list" where
  "normalizeRestrictedCountries list =
     filterIndexed (\<lambda>country index. country \<noteq> [] \<and> indexOf
         (map (\<lambda>country. trim country) (case list of None \<Rightarrow> [] | Some l \<Rightarrow> l)) country = index)
       (map (\<lambda>country. trim country) (case list of None \<Rightarrow> [] | Some l \<Rightarrow> l))"

text \<open>
  \<^verbatim>\<open>
  export const createUniversity = async (payload: Partial<University>) => {
    if (!payload.name || !payload.portalUrl || !payload.location) {
      throw new Error('Name, portal link, and location are required');
    }
    const universities = readStore();
    const newUniversity: University = {
      id: payload.id ?? nextId(),
      name: payload.name, portalUrl: payload.portalUrl, location: payload.location,
      overview: payload.overview ?? '',
      fees: payload.fees ?? { application: 0, averageTuition: {} },
      programs: payload.programs ?? { bachelor: [], masters: [], phd: [] },
      scholarships: payload.scholarships ?? { bachelor: [], masters: [], phd: [] },
      restrictedCountries: normalizeRestrictedCountries(payload.restrictedCountries)
    };
    universities.push(newUniversity);
    writeStore(universities);
    return delay(newUniversity);
  };
  \<close>
  The object literal is \<open>newUniversity\<close>.
  \<^verbatim>\<open>
  const nextId = () =>
    (typeof crypto !== 'undefined' && crypto.randomUUID
      ? crypto.randomUUID()
      : `uni-${Date.now()}`);
  \<close>
  What \<open>nextId\<close> reads from outside is the environment of the call: \<open>randomUUID\<close> is
  \<open>None\<close> where \<open>crypto\<close> or \<open>crypto.randomUUID\<close> does not exist and otherwise the string
  \<open>crypto.randomUUID()\<close> returns in this call, of which nothing is assumed; \<open>dateNow\<close> is
  what \<open>Date.now()\<close> returns, the milliseconds since the epoch.
\<close>

record env =
  randomUUID :: "string option"
  dateNow :: nat

definition nextId :: "env \<Rightarrow> string" where
  "nextId e = (case randomUUID e of Some u \<Rightarrow> u | None \<Rightarrow> ''uni-'' @ showNat (dateNow e))"

definition emptyLevels :: "DegreeLevel \<rightharpoonup> 'a list" where
  "emptyLevels = [Bachelor \<mapsto> [], Masters \<mapsto> [], PhD \<mapsto> []]"

definition newUniversity :: "UniversityPayload \<Rightarrow> env \<Rightarrow> University" where
  "newUniversity payload e =
     \<lparr>uid = (case p_id payload of None \<Rightarrow> nextId e | Some i \<Rightarrow> i),
      name = p_name payload,
      portalUrl = the (p_portalUrl payload),
      location = p_location payload,
      overview = Some (case p_overview payload of Some (Some t) \<Rightarrow> t | _ \<Rightarrow> []),
      fees = (case p_fees payload of
                None \<Rightarrow> \<lparr>application = 0, averageTuition = Map.empty\<rparr>
              | Some f \<Rightarrow> f),
      programs = (case p_programs payload of None \<Rightarrow> emptyLevels | Some m \<Rightarrow> m),
      scholarships = (case p_scholarships payload of None \<Rightarrow> emptyLevels | Some m \<Rightarrow> m),
      restrictedCountries =
        Some (normalizeRestrictedCountries (p_restrictedCountries payload))\<rparr>"

definition createUniversity ::
  "UniversityPayload \<Rightarrow> env \<Rightarrow> store \<Rightarrow> (error + University) \<times> store" where
  "createUniversity payload e s =
     (if \<not> truthy (p_name payload) \<or> \<not> truthy (p_portalUrl payload)
          \<or> \<not> truthy (p_location payload)
      then (Inl ValidationError, s)
      else
        (let (universities, s') = readStore s
         in (Inr (newUniversity payload e),
             writeStore (universities @ [newUniversity payload e]) s')))"

text \<open>
  \<^verbatim>\<open>
  export const updateUniversity = async (id: string, payload: Partial<University>) => {
    const universities = readStore();
    const index = universities.findIndex((u) => u.id === id);
    if (index === -1) { throw new Error('University not found'); }
    const updated: University = normalizeUniversity({
      ...universities[index],
      ...payload,
      restrictedCountries:
        payload.restrictedCountries !== undefined
          ? normalizeRestrictedCountries(payload.restrictedCountries)
          : universities[index].restrictedCountries ?? [],
      id
    });
    universities[index] = updated;
    writeStore(universities);
    return delay(updated);
  };
  \<close>
  \<open>spread p old\<close> is one property of \<open>{...old, ...payload}\<close>: the payload's when it has
  one (for \<open>name\<close> and \<open>location\<close>, a string of the payload is a property that is
  there). The normalised object literal is \<open>updated\<close>; an index that is not \<open>-1\<close> is in
  range, so \<open>universities[index]\<close> is \<open>universities ! nat index\<close>.
\<close>

definition spread :: "'a option \<Rightarrow> 'a \<Rightarrow> 'a" where
  "spread p old = (case p of None \<Rightarrow> old | Some v \<Rightarrow> v)"

definition updated :: "string \<Rightarrow> UniversityPayload \<Rightarrow> University \<Rightarrow> University" where
  "updated i payload existing =
     normalizeUniversity
       \<lparr>uid = i,
        name = spread (map_option Some (p_name payload)) (name existing),
        portalUrl = spread (p_portalUrl payload) (portalUrl existing),
        location = spread (map_option Some (p_location payload)) (location existing),
        overview = spread (p_overview payload) (overview existing),
        fees = spread (p_fees payload) (fees existing),
        programs = spread (p_programs payload) (programs existing),
        scholarships = spread (p_scholarships payload) (scholarships existing),
        restrictedCountries =
          (case p_restrictedCountries payload of
             Some l \<Rightarrow> Some (normalizeRestrictedCountries (Some l))
           | None \<Rightarrow>
               Some (case restrictedCountries existing of None \<Rightarrow> [] | Some l \<Rightarrow> l))\<rparr>"

definition updateUniversity ::
  "string \<Rightarrow> UniversityPayload \<Rightarrow> store \<Rightarrow> (error + University) \<times> store" where
  "updateUniversity i payload s =
     (let (universities, s') = readStore s;
          index = findIndex (\<lambda>u. uid u = i) universities
      in if index = -1 then (Inl NotFound, s')
         else
           (let u = updated i payload (universities ! nat index)
            in (Inr u, writeStore (universities[nat index := u]) s')))"

text \<open>
  What the module keeps true of its variable: \<open>inMemoryStore\<close> is only ever assigned a
  list that went through \<open>normalizeUniversity\<close>.
\<close>

definition storeNormalized :: "store \<Rightarrow> bool" where
  "storeNormalized s \<longleftrightarrow>
     map (\<lambda>uni. normalizeUniversity uni) (inMemoryStore s) = inMemoryStore s"

section \<open>Notions the properties are stated with\<close>

text \<open>
  De-duplication that keeps first occurrences: going through the list from the left, an
  element is kept when no equal element has been seen before it.
\<close>

fun unseen :: "'a list \<Rightarrow> 'a list \<Rightarrow> 'a list" where
  "unseen seen [] = []"
| "unseen seen (x # xs) =
     (if x \<in> set seen then unseen seen xs else x # unseen (x # seen) xs)"

definition firstOccurrences :: "'a list \<Rightarrow> 'a list" where
  "firstOccurrences xs = unseen [] xs"

section \<open>Example data\<close>

definition exProgram :: Program where
  "exProgram = \<lparr>pr_name = ''CS'', pr_duration = ''4y'', pr_delivery = ''on-campus''\<rparr>"

definition exStanford :: University where
  "exStanford =
     \<lparr>uid = ''u1'', name = Some ''Stanford University'', portalUrl = ''https://stanford.edu'',
      location = Some ''USA'', overview = Some ''Private research university'',
      fees = \<lparr>application = 90, averageTuition = [Bachelor \<mapsto> 60000]\<rparr>,
      programs = [Bachelor \<mapsto> [exProgram], Masters \<mapsto> [], PhD \<mapsto> []],
      scholarships = emptyLevels,
      restrictedCountries = Some [''Iran'']\<rparr>"

definition exMIT :: University where
  "exMIT =
     \<lparr>uid = ''u2'', name = Some ''MIT'', portalUrl = ''https://mit.edu'',
      location = Some ''usa'', overview = None,
      fees = \<lparr>application = 75, averageTuition = Map.empty\<rparr>,
      programs = emptyLevels,
      scholarships = emptyLevels,
      restrictedCountries = Some []\<rparr>"

definition exStore :: store where
  "exStore =
     \<lparr>inMemoryStore = [exStanford, exMIT],
      localStorage = Some (Parsed [exStanford, exMIT])\<rparr>"

definition noPayload :: UniversityPayload where
  "noPayload =
     \<lparr>p_id = None, p_name = None, p_portalUrl = None, p_location = None, p_overview = None,
      p_fees = None, p_programs = None, p_scholarships = None, p_restrictedCountries = None\<rparr>"

definition exPayload :: UniversityPayload where
  "exPayload =
     noPayload\<lparr>p_name := Some ''Oxford'', p_portalUrl := Some ''https://ox.ac.uk'',
       p_location := Some ''UK''\<rparr>"

text \<open>
  Two environments: one with \<open>crypto.randomUUID\<close>, returning \<open>id-7\<close>, and one without
  \<open>crypto\<close>; the clock reads the same in both.
\<close>

definition exEnv :: env where
  "exEnv = \<lparr>randomUUID = Some ''id-7'', dateNow = 1700000000000\<rparr>"

definition exEnvNoCrypto :: env where
  "exEnvNoCrypto = \<lparr>randomUUID = None, dateNow = 1700000000000\<rparr>"

text \<open>
  A session that loads with the seed \<open>[exStanford]\<close> and an empty slot, creates a
  university, and then finds the slot overwritten with text that does not parse.
\<close>

definition exCorrupted :: store where
  "exCorrupted =
     (snd (createUniversity exPayload exEnv (initialStore [exStanford] (Some NoItem))))
       \<lparr>localStorage := Some Corrupt\<rparr>"

text \<open>
  A record as it can come out of the slot: an object with an id and no other property of
  its own but \<open>portalUrl\<close>, \<open>fees\<close> and an empty \<open>programs\<close> object. And a store whose slot
  holds it after \<open>exStanford\<close>.
\<close>

definition exNameless :: University where
  "exNameless =
     \<lparr>uid = ''u3'', name = None, portalUrl = ''https://example.org'',
      location = None, overview = None,
      fees = \<lparr>application = 0, averageTuition = Map.empty\<rparr>,
      programs = Map.empty, scholarships = Map.empty,
      restrictedCountries = None\<rparr>"

definition exLegacyStore :: store where
  "exLegacyStore =
     \<lparr>inMemoryStore = [exStanford],
      localStorage = Some (Parsed [exStanford, exNameless])\<rparr>"

text \<open>
  A lower-casing function for the examples: it maps the capital letters below 256
  (\<open>A\<close> to \<open>Z\<close>, and \<open>0xC0\<close> to \<open>0xDE\<close> but for the multiplication sign \<open>0xD7\<close>) to
  the code unit 32 above and leaves every other code unit as it is.
\<close>

definition exLowerUnit :: "char \<Rightarrow> char" where
  "exLowerUnit c =
     (if (65 \<le> (of_char c :: nat) \<and> (of_char c :: nat) \<le> 90)
         \<or> (192 \<le> (of_char c :: nat) \<and> (of_char c :: nat) \<le> 222 \<and> (of_char c :: nat) \<noteq> 215)
      then char_of ((of_char c :: nat) + 32) else c)"

definition exToLowerCase :: "string \<Rightarrow> string" where
  "exToLowerCase s = map exLowerUnit s"

text \<open>
  \<open>exEcole\<close> is named \<open>0xC9 c o l e\<close> (a capital E with acute accent first), in
  \<open>Paris\<close>.
\<close>

definition exEcole :: University where
  "exEcole = exMIT\<lparr>uid := ''u4'', name := Some (CHR 0xC9 # ''cole''), location := Some ''Paris''\<rparr>"

section \<open>Strings and arrays\<close>

lemma trimEnd_decomp: "trimEnd s @ rev (takeWhile isWhiteSpace (rev s)) = s"
proof -
  have "rev (takeWhile isWhiteSpace (rev s) @ dropWhile isWhiteSpace (rev s)) = s"
    by simp
  then show ?thesis
    unfolding trimEnd_def by (simp only: rev_append)
qed

lemma hd_trimEnd: "trimEnd s \<noteq> [] \<Longrightarrow> hd (trimEnd s) = hd s"
  by (metis hd_append2 trimEnd_decomp)

lemma trimEnd_idem: "trimEnd (trimEnd s) = trimEnd s"
  by (simp add: trimEnd_def)

lemma trimStart_trimEnd_trimStart: "trimStart (trimEnd (trimStart s)) = trimEnd (trimStart s)"
proof (cases "trimEnd (trimStart s) = []")
  case True
  then show ?thesis by (simp add: trimStart_def)
next
  case False
  then have h: "hd (trimEnd (trimStart s)) = hd (trimStart s)"
    by (rule hd_trimEnd)
  from False have "trimStart s \<noteq> []"
    by (auto simp: trimEnd_def)
  then have "\<not> isWhiteSpace (hd (trimStart s))"
    unfolding trimStart_def by (rule hd_dropWhile)
  with h show ?thesis
    unfolding trimStart_def[of "trimEnd (trimStart s)"] by (simp add: dropWhile_eq_self_iff)
qed

lemma trim_idem: "trim (trim s) = trim s"
  by (simp add: trim_def trimStart_trimEnd_trimStart trimEnd_idem)

lemma cleaned_idem:
  "filter (\<lambda>c. c \<noteq> []) (map trim (filter (\<lambda>c. c \<noteq> []) (map trim l)))
     = filter (\<lambda>c. c \<noteq> []) (map trim l)"
  by (induction l) (auto simp: trim_idem)

lemma normalizeUniversity_idem: "normalizeUniversity (normalizeUniversity x) = normalizeUniversity x"
  by (simp add: normalizeUniversity_def cleaned_idem)

lemma includesStr_iff: "includesStr t s \<longleftrightarrow> (\<exists>pre suf. t = pre @ s @ suf)"
proof (induction t)
  case Nil
  then show ?case by auto
next
  case (Cons c cs)
  show ?case
  proof
    assume "includesStr (c # cs) s"
    then consider "prefix s (c # cs)" | "includesStr cs s" by auto
    then show "\<exists>pre suf. c # cs = pre @ s @ suf"
    proof cases
      case 1
      then obtain suf where "c # cs = s @ suf" by (auto simp: prefix_def)
      then have "c # cs = [] @ s @ suf" by simp
      then show ?thesis by blast
    next
      case 2
      with Cons.IH obtain pre suf where "cs = pre @ s @ suf" by blast
      then have "c # cs = (c # pre) @ s @ suf" by simp
      then show ?thesis by blast
    qed
  next
    assume "\<exists>pre suf. c # cs = pre @ s @ suf"
    then obtain pre suf where e: "c # cs = pre @ s @ suf" by blast
    show "includesStr (c # cs) s"
    proof (cases pre)
      case Nil
      with e have "prefix s (c # cs)" by (simp add: prefix_def)
      then show ?thesis by simp
    next
      case (Cons a pre')
      with e have "cs = pre' @ s @ suf" by simp
      with Cons.IH have "includesStr cs s" by blast
      then show ?thesis by simp
    qed
  qed
qed

lemma findIndex_ge: "findIndex P xs = -1 \<or> 0 \<le> findIndex P xs"
  by (induction xs) (auto simp: Let_def)

lemma findIndex_none_iff: "findIndex P xs = -1 \<longleftrightarrow> (\<forall>x \<in> set xs. \<not> P x)"
proof (induction xs)
  case Nil
  then show ?case by simp
next
  case (Cons x xs)
  have "findIndex P xs = -1 \<or> 0 \<le> findIndex P xs" by (rule findIndex_ge)
  with Cons show ?case by (auto simp: Let_def)
qed

lemma findIndex_eq_iff:
  "findIndex P xs = int i \<longleftrightarrow> i < length xs \<and> P (xs ! i) \<and> (\<forall>x \<in> set (take i xs). \<not> P x)"
proof (induction xs arbitrary: i)
  case Nil
  then show ?case by simp
next
  case (Cons x xs)
  have ge: "findIndex P xs = -1 \<or> 0 \<le> findIndex P xs" by (rule findIndex_ge)
  show ?case
  proof (cases i)
    case 0
    with ge show ?thesis by (auto simp: Let_def)
  next
    case (Suc j)
    have "findIndex P (x # xs) = int (Suc j) \<longleftrightarrow> \<not> P x \<and> findIndex P xs = int j"
      using ge by (auto simp: Let_def)
    with Cons.IH[of j] Suc show ?thesis by auto
  qed
qed

lemma findIndex_found:
  assumes "findIndex P xs \<noteq> -1"
  shows "nat (findIndex P xs) < length xs" and "P (xs ! nat (findIndex P xs))"
    and "find P xs = Some (xs ! nat (findIndex P xs))"
proof -
  from assms findIndex_ge[of P xs] have "0 \<le> findIndex P xs" by auto
  then have e: "findIndex P xs = int (nat (findIndex P xs))" by simp
  from e show a: "nat (findIndex P xs) < length xs" using findIndex_eq_iff[of P xs] by blast
  from e show b: "P (xs ! nat (findIndex P xs))" using findIndex_eq_iff[of P xs] by blast
  from e have c: "\<forall>x \<in> set (take (nat (findIndex P xs)) xs). \<not> P x"
    using findIndex_eq_iff[of P xs] by blast
  show "find P xs = Some (xs ! nat (findIndex P xs))"
    unfolding find_Some_iff
  proof (intro exI conjI)
    show "nat (findIndex P xs) < length xs" by (rule a)
    show "P (xs ! nat (findIndex P xs))" by (rule b)
    show "xs ! nat (findIndex P xs) = xs ! nat (findIndex P xs)" by simp
    show "\<forall>j<nat (findIndex P xs). \<not> P (xs ! j)"
    proof (intro allI impI)
      fix j assume j: "j < nat (findIndex P xs)"
      from a j have "take (nat (findIndex P xs)) xs ! j \<in> set (take (nat (findIndex P xs)) xs)"
        by (intro nth_mem) simp
      with j have "xs ! j \<in> set (take (nat (findIndex P xs)) xs)"
        by simp
      with c show "\<not> P (xs ! j)" by blast
    qed
  qed
qed

lemma indexOf_eq_iff:
  "indexOf arr x = int i \<longleftrightarrow> i < length arr \<and> arr ! i = x \<and> x \<notin> set (take i arr)"
  unfolding indexOf_def findIndex_eq_iff by auto

lemma filterIndexed_snoc:
  "filterIndexed P (ys @ [y]) =
     filterIndexed P ys @ (if P y (int (length ys)) then [y] else [])"
  by (simp add: filterIndexed_def)

lemma indexOf_append_left:
  "i < length ys \<Longrightarrow> indexOf (ys @ zs) x = int i \<longleftrightarrow> indexOf ys x = int i"
  by (auto simp: indexOf_eq_iff nth_append)

lemma unseen_snoc:
  "unseen seen (ys @ [y]) =
     unseen seen ys @ (if y \<in> set seen \<union> set ys then [] else [y])"
  by (induction ys arbitrary: seen) auto

lemma firstOccurrences_snoc:
  "firstOccurrences (ys @ [y]) = firstOccurrences ys @ (if y \<in> set ys then [] else [y])"
  by (simp add: firstOccurrences_def unseen_snoc)

lemma filterIndexed_cong:
  "(\<And>i. i < length arr \<Longrightarrow> P (arr ! i) (int i) = Q (arr ! i) (int i))
     \<Longrightarrow> filterIndexed P arr = filterIndexed Q arr"
  unfolding filterIndexed_def
  by (rule arg_cong[where f = "map fst"], rule filter_cong)
     (auto simp: in_set_zip)

lemma dedup_first:
  "filterIndexed (\<lambda>c i. c \<noteq> [] \<and> indexOf arr c = i) arr
     = firstOccurrences (filter (\<lambda>c. c \<noteq> []) arr)"
proof (induction arr rule: rev_induct)
  case Nil
  then show ?case by (simp add: filterIndexed_def firstOccurrences_def)
next
  case (snoc y ys)
  have 1: "filterIndexed (\<lambda>c i. c \<noteq> [] \<and> indexOf (ys @ [y]) c = i) ys
         = filterIndexed (\<lambda>c i. c \<noteq> [] \<and> indexOf ys c = i) ys"
    by (rule filterIndexed_cong) (simp add: indexOf_append_left)
  have 2: "indexOf (ys @ [y]) y = int (length ys) \<longleftrightarrow> y \<notin> set ys"
    by (simp add: indexOf_eq_iff)
  show ?case
    by (simp add: filterIndexed_snoc 1 2 snoc.IH firstOccurrences_snoc)
qed

lemma normalizeRestrictedCountries_eq:
  "normalizeRestrictedCountries l =
     firstOccurrences (filter (\<lambda>c. c \<noteq> []) (map trim (case l of None \<Rightarrow> [] | Some xs \<Rightarrow> xs)))"
  unfolding normalizeRestrictedCountries_def by (rule dedup_first)


lemma showNat_small: "n < 10 \<Longrightarrow> showNat n = [digit n]"
  by (subst showNat.simps) simp

lemma showNat_big: "\<not> n < 10 \<Longrightarrow> showNat n = showNat (n div 10) @ [digit (n mod 10)]"
  by (subst showNat.simps) simp

lemma showNat_example: "showNat 1700000000000 = ''1700000000000''"
  by (simp add: showNat_small showNat_big digit_def)

lemma digit_inj: "a < 10 \<Longrightarrow> b < 10 \<Longrightarrow> digit a = digit b \<longleftrightarrow> a = b"
proof -
  assume "a < 10" "b < 10"
  moreover have "distinct ''0123456789''" by simp
  ultimately show ?thesis
    unfolding digit_def by (simp add: nth_eq_iff_index_eq)
qed

lemma showNat_nonempty: "showNat n \<noteq> []"
  by (cases "n < 10") (simp_all add: showNat_small showNat_big)

lemma showNat_inj: "showNat n = showNat m \<Longrightarrow> n = m"
proof (induction n arbitrary: m rule: showNat.induct)
  case (1 n)
  show ?case
  proof (cases "n < 10")
    case True
    show ?thesis
    proof (cases "m < 10")
      case mt: True
      from "1.prems" have "digit n = digit m"
        by (simp add: showNat_small[OF True] showNat_small[OF mt])
      with True mt show ?thesis by (simp add: digit_inj)
    next
      case mf: False
      from "1.prems" have "[digit n] = showNat (m div 10) @ [digit (m mod 10)]"
        by (simp add: showNat_small[OF True] showNat_big[OF mf])
      then have "showNat (m div 10) = []" by simp
      with showNat_nonempty show ?thesis by blast
    qed
  next
    case False
    show ?thesis
    proof (cases "m < 10")
      case mt: True
      from "1.prems" have "showNat (n div 10) @ [digit (n mod 10)] = [digit m]"
        by (simp add: showNat_big[OF False] showNat_small[OF mt])
      then have "showNat (n div 10) = []" by simp
      with showNat_nonempty show ?thesis by blast
    next
      case mf: False
      from "1.prems"
      have e: "showNat (n div 10) @ [digit (n mod 10)] = showNat (m div 10) @ [digit (m mod 10)]"
        by (simp add: showNat_big[OF False] showNat_big[OF mf])
      then have a: "showNat (n div 10) = showNat (m div 10)"
        and b: "digit (n mod 10) = digit (m mod 10)"
        by simp_all
      from "1.IH"[OF False a] have d: "n div 10 = m div 10" .
      from b have r: "n mod 10 = m mod 10" by (simp add: digit_inj)
      have "n = 10 * (n div 10) + n mod 10" by simp
      also have "\<dots> = 10 * (m div 10) + m mod 10" using d r by simp
      also have "\<dots> = m" by simp
      finally show ?thesis .
    qed
  qed
qed

lemma nextId_fallback_inj:
  assumes "randomUUID e1 = None" and "randomUUID e2 = None"
  shows "nextId e1 = nextId e2 \<longleftrightarrow> dateNow e1 = dateNow e2"
  using assms by (auto simp: nextId_def dest: showNat_inj)

section \<open>The store\<close>

lemma readStore_fst:
  "fst (readStore s) =
     (case localStorage s of Some (Parsed parsed) \<Rightarrow> map normalizeUniversity parsed
      | _ \<Rightarrow> inMemoryStore s)"
  by (simp add: readStore_def clone_def Let_def split: option.splits slot.splits)

lemma map_normalize_idem:
  "map normalizeUniversity (map normalizeUniversity xs) = map normalizeUniversity xs"
  by (simp add: normalizeUniversity_idem)

lemma readStore_normalized:
  "storeNormalized s \<Longrightarrow> map normalizeUniversity (fst (readStore s)) = fst (readStore s)"
  by (simp add: readStore_fst storeNormalized_def map_normalize_idem o_def normalizeUniversity_idem
      split: option.splits slot.splits)

lemma readStore_keeps_normalized: "storeNormalized s \<Longrightarrow> storeNormalized (snd (readStore s))"
  by (simp add: readStore_def storeNormalized_def clone_def Let_def normalizeUniversity_idem
      split: option.splits slot.splits)

lemma readStore_twice:
  "storeNormalized s \<Longrightarrow> fst (readStore (snd (readStore s))) = fst (readStore s)"
  by (simp add: readStore_def storeNormalized_def clone_def Let_def
      split: option.splits slot.splits)

lemma writeStore_normalized: "storeNormalized (writeStore d s)"
  by (simp add: writeStore_def storeNormalized_def clone_def Let_def normalizeUniversity_idem)

lemma inMemoryStore_writeStore: "inMemoryStore (writeStore d s) = map normalizeUniversity d"
  by (simp add: writeStore_def clone_def Let_def)

lemma localStorage_writeStore:
  "localStorage (writeStore d s) =
     (case localStorage s of None \<Rightarrow> None | Some x \<Rightarrow> Some (Parsed (map normalizeUniversity d)))"
  by (simp add: writeStore_def clone_def Let_def)

lemma readStore_writeStore: "fst (readStore (writeStore d s)) = map normalizeUniversity d"
  by (simp add: readStore_fst inMemoryStore_writeStore localStorage_writeStore normalizeUniversity_idem
      split: option.splits slot.splits)

lemma localStorage_readStore_None:
  "localStorage (snd (readStore s)) = None \<longleftrightarrow> localStorage s = None"
  by (simp add: readStore_def Let_def split: option.splits slot.splits)

lemma initialStore_normalized: "storeNormalized (initialStore seed ls)"
  by (simp add: initialStore_def storeNormalized_def clone_def normalizeUniversity_idem)

lemma set_unseen: "set (unseen seen xs) = set xs - set seen"
  by (induction xs arbitrary: seen) auto

lemma distinct_unseen: "distinct (unseen seen xs)"
  by (induction xs arbitrary: seen) (auto simp: set_unseen)

lemma unseen_distinct: "distinct xs \<Longrightarrow> set xs \<inter> set seen = {} \<Longrightarrow> unseen seen xs = xs"
  by (induction xs arbitrary: seen) auto

lemma set_firstOccurrences: "set (firstOccurrences xs) = set xs"
  by (simp add: firstOccurrences_def set_unseen)

lemma distinct_firstOccurrences: "distinct (firstOccurrences xs)"
  by (simp add: firstOccurrences_def distinct_unseen)

lemma firstOccurrences_distinct: "distinct xs \<Longrightarrow> firstOccurrences xs = xs"
  by (simp add: firstOccurrences_def unseen_distinct)

lemma set_normalizeRestrictedCountries:
  "set (normalizeRestrictedCountries l) =
     {c. c \<noteq> [] \<and> c \<in> trim ` set (case l of None \<Rightarrow> [] | Some xs \<Rightarrow> xs)}"
  by (auto simp: normalizeRestrictedCountries_eq set_firstOccurrences)

lemma normalizeRestrictedCountries_clean:
  "filter (\<lambda>c. c \<noteq> []) (map trim (normalizeRestrictedCountries l)) = normalizeRestrictedCountries l"
proof -
  have "map trim (normalizeRestrictedCountries l) = normalizeRestrictedCountries l"
    by (rule map_idI) (auto simp: set_normalizeRestrictedCountries trim_idem)
  moreover have "filter (\<lambda>c. c \<noteq> []) (normalizeRestrictedCountries l) = normalizeRestrictedCountries l"
    by (rule filter_True) (simp add: set_normalizeRestrictedCountries)
  ultimately show ?thesis by simp
qed

lemma normalizeRestrictedCountries_idem:
  "normalizeRestrictedCountries (Some (normalizeRestrictedCountries l)) = normalizeRestrictedCountries l"
proof -
  have "normalizeRestrictedCountries (Some (normalizeRestrictedCountries l))
      = firstOccurrences (normalizeRestrictedCountries l)"
    by (simp add: normalizeRestrictedCountries_eq[of "Some x" for x] normalizeRestrictedCountries_clean)
  also have "\<dots> = normalizeRestrictedCountries l"
    by (rule firstOccurrences_distinct) (simp add: normalizeRestrictedCountries_eq distinct_firstOccurrences)
  finally show ?thesis .
qed

lemma normalize_newUniversity: "normalizeUniversity (newUniversity p e) = newUniversity p e"
  by (simp add: normalizeUniversity_def newUniversity_def normalizeRestrictedCountries_clean)

lemma normalize_updated: "normalizeUniversity (updated i p e) = updated i p e"
  by (simp add: updated_def normalizeUniversity_idem)

lemma createUniversity_valid:
  assumes "truthy (p_name p)" "truthy (p_portalUrl p)" "truthy (p_location p)"
  shows "createUniversity p e s =
     (Inr (newUniversity p e),
      writeStore (fst (readStore s) @ [newUniversity p e]) (snd (readStore s)))"
  using assms by (simp add: createUniversity_def split_def Let_def)

lemma createUniversity_invalid:
  assumes "\<not> (truthy (p_name p) \<and> truthy (p_portalUrl p) \<and> truthy (p_location p))"
  shows "createUniversity p e s = (Inl ValidationError, s)"
  using assms by (auto simp add: createUniversity_def)

lemma truthy_iff: "truthy v \<longleftrightarrow> v \<noteq> None \<and> v \<noteq> Some []"
  by (simp add: truthy_def split: option.splits)

lemma updateUniversity_unknown:
  assumes "\<forall>u \<in> set (fst (readStore s)). uid u \<noteq> i"
  shows "updateUniversity i p s = (Inl NotFound, snd (readStore s))"
proof -
  from assms have "findIndex (\<lambda>u. uid u = i) (fst (readStore s)) = -1"
    by (simp add: findIndex_none_iff)
  then show ?thesis
    by (simp add: updateUniversity_def split_def Let_def)
qed

lemma find_findIndex:
  assumes "find P xs = Some x"
  shows "findIndex P xs \<noteq> -1" and "xs ! nat (findIndex P xs) = x"
proof -
  from assms have "\<exists>y \<in> set xs. P y"
    by (metis find_None_iff option.distinct(1))
  then show ne: "findIndex P xs \<noteq> -1"
    by (simp add: findIndex_none_iff)
  from findIndex_found(3)[OF ne] assms show "xs ! nat (findIndex P xs) = x"
    by simp
qed

lemma updateUniversity_known:
  assumes "find (\<lambda>u. uid u = i) (fst (readStore s)) = Some existing"
  shows "updateUniversity i p s =
     (Inr (updated i p existing),
      writeStore ((fst (readStore s))[nat (findIndex (\<lambda>u. uid u = i) (fst (readStore s)))
                    := updated i p existing]) (snd (readStore s)))"
  using find_findIndex[OF assms]
  by (simp add: updateUniversity_def split_def Let_def)

lemma getUniversity_eq:
  "getUniversity i s =
     (case find (\<lambda>u. uid u = i) (fst (readStore s)) of
        None \<Rightarrow> (Inl NotFound, snd (readStore s))
      | Some u \<Rightarrow> (Inr u, snd (readStore s)))"
  by (simp add: getUniversity_def split_def Let_def)

section \<open>The invariant of the module's variable\<close>

text \<open>
  \<open>storeNormalized\<close> holds when the module is loaded (\<open>initialStore_normalized\<close>), every
  operation keeps it, and so does whatever else writes to the slot: it holds in every
  state the operations are called in.
\<close>

lemma slot_change_keeps_normalized:
  "storeNormalized s \<Longrightarrow> storeNormalized (s\<lparr>localStorage := ls\<rparr>)"
  by (simp add: storeNormalized_def)

lemma readStore_member_normalized:
  assumes "storeNormalized s" and "u \<in> set (fst (readStore s))"
  shows "normalizeUniversity u = u"
proof -
  from assms(1) have "map normalizeUniversity (fst (readStore s)) = map (\<lambda>u. u) (fst (readStore s))"
    by (simp add: readStore_normalized)
  then have "\<forall>u \<in> set (fst (readStore s)). normalizeUniversity u = u"
    by (simp only: map_eq_conv)
  with assms(2) show ?thesis by blast
qed

lemma normalized_restrictedCountries:
  assumes "normalizeUniversity u = u"
  shows "Some (filter (\<lambda>c. c \<noteq> []) (map trim
           (case restrictedCountries u of None \<Rightarrow> [] | Some l \<Rightarrow> l))) = restrictedCountries u"
proof -
  have "restrictedCountries (normalizeUniversity u) = restrictedCountries u"
    using assms by simp
  then show ?thesis by (simp add: normalizeUniversity_def)
qed

lemma localStorage_write_after_read:
  "localStorage (writeStore d (snd (readStore s))) =
     (case localStorage s of None \<Rightarrow> None
      | Some x \<Rightarrow> Some (Parsed (map normalizeUniversity d)))"
  by (simp add: writeStore_def readStore_def Let_def clone_def split: option.splits slot.splits)

lemma getUniversities_None:
  "getUniversities lc None s = (Inr (fst (readStore s)), snd (readStore s))"
  by (simp add: getUniversities_def filterUniversities_def split_def Let_def)

lemma operations_keep_normalized:
  "storeNormalized s \<Longrightarrow> storeNormalized (snd (getUniversities lc f s))"
  "storeNormalized s \<Longrightarrow> storeNormalized (snd (getUniversity i s))"
  "storeNormalized s \<Longrightarrow> storeNormalized (snd (createUniversity p e s))"
  "storeNormalized s \<Longrightarrow> storeNormalized (snd (updateUniversity i p s))"
proof -
  assume n: "storeNormalized s"
  then have r: "storeNormalized (snd (readStore s))"
    by (rule readStore_keeps_normalized)
  from r show "storeNormalized (snd (getUniversities lc f s))"
    by (simp add: getUniversities_def split_def Let_def)
  from r show "storeNormalized (snd (getUniversity i s))"
    by (simp add: getUniversity_eq split: option.splits)
  from n show "storeNormalized (snd (createUniversity p e s))"
    by (simp add: createUniversity_def split_def Let_def writeStore_normalized)
  from r show "storeNormalized (snd (updateUniversity i p s))"
    by (simp add: updateUniversity_def split_def Let_def writeStore_normalized)
qed

section \<open>Facts about the example data\<close>

lemma exStore_normalized: "storeNormalized exStore"
proof -
  have "trim ''Iran'' = ''Iran''" by code_simp
  then show ?thesis
    by (simp add: storeNormalized_def exStore_def exStanford_def exMIT_def normalizeUniversity_def)
qed

lemma readStore_exStore: "fst (readStore exStore) = [exStanford, exMIT]"
  using exStore_normalized
  by (simp add: readStore_fst exStore_def storeNormalized_def)

lemma exStanford_normalized: "normalizeUniversity exStanford = exStanford"
  using readStore_member_normalized[OF exStore_normalized, of exStanford]
  by (simp add: readStore_exStore)

lemma exPayload_valid:
  "truthy (p_name (exPayload\<lparr>p_id := a, p_programs := b, p_restrictedCountries := c\<rparr>))"
  "truthy (p_portalUrl (exPayload\<lparr>p_id := a, p_programs := b, p_restrictedCountries := c\<rparr>))"
  "truthy (p_location (exPayload\<lparr>p_id := a, p_programs := b, p_restrictedCountries := c\<rparr>))"
  by (simp_all add: truthy_def exPayload_def noPayload_def)

lemma find_exStore_u2: "find (\<lambda>u. uid u = ''u2'') (fst (readStore exStore)) = Some exMIT"
  by (simp add: readStore_exStore exStanford_def exMIT_def)

lemma findIndex_exStore_u2: "findIndex (\<lambda>u. uid u = ''u2'') (fst (readStore exStore)) = 1"
  by (simp add: readStore_exStore exStanford_def exMIT_def)

lemma readStore_exCorrupted:
  "fst (readStore exCorrupted) = [exStanford, newUniversity exPayload exEnv]"
  "localStorage (snd (readStore exCorrupted))
     = Some (Parsed [exStanford, newUniversity exPayload exEnv])"
  using exPayload_valid[of None None None]
  by (simp_all add: exCorrupted_def createUniversity_def split_def Let_def readStore_def
      writeStore_def initialStore_def clone_def exStanford_normalized normalize_newUniversity
      exPayload_def noPayload_def)

lemma nextId_exEnv: "nextId exEnv = ''id-7''"
  by (simp add: nextId_def exEnv_def)

lemma nextId_exEnvNoCrypto: "nextId exEnvNoCrypto = ''uni-1700000000000''"
  by (simp add: nextId_def exEnvNoCrypto_def showNat_example)

lemma ex_search:
  "includesStr (exToLowerCase ''Stanford University'') (exToLowerCase ''stan'')"
  "\<not> includesStr (exToLowerCase ''MIT'') (exToLowerCase ''stan'')"
  "exToLowerCase ''USA'' = exToLowerCase ''usa''"
  "exToLowerCase ''USA'' \<noteq> exToLowerCase ''us''"
  "exToLowerCase ''usa'' \<noteq> exToLowerCase ''us''"
  "includesStr (exToLowerCase (CHR 0xC9 # ''cole'')) (exToLowerCase (CHR 0xE9 # ''cole''))"
  "\<not> includesStr (exToLowerCase ''Stanford University'') (exToLowerCase (CHR 0xE9 # ''cole''))"
  "\<not> includesStr (exToLowerCase ''MIT'') (exToLowerCase (CHR 0xE9 # ''cole''))"
  by code_simp+

section \<open>Properties of the normalizer\<close>

text \<open>
  C5. The normalizer is idempotent: for every record \<open>x\<close>, normalizing the normalized
  record gives the normalized record again. The same holds of the restricted-countries
  normalization that create and update apply to a payload's list.
\<close>

theorem normalizer_idempotent:
  "normalizeUniversity (normalizeUniversity x) = normalizeUniversity x
   \<and> normalizeRestrictedCountries (Some (normalizeRestrictedCountries l))
       = normalizeRestrictedCountries l"
  by (simp add: normalizeUniversity_idem normalizeRestrictedCountries_idem)

theorem normalizer_idempotent_witness:
  "normalizeUniversity (normalizeUniversity (exMIT\<lparr>restrictedCountries := Some ['' USA '', ''  '']\<rparr>))
     = normalizeUniversity (exMIT\<lparr>restrictedCountries := Some ['' USA '', ''  '']\<rparr>)
   \<and> restrictedCountries (normalizeUniversity (exMIT\<lparr>restrictedCountries := Some ['' USA '', ''  '']\<rparr>))
       = Some [''USA'']
   \<and> normalizeRestrictedCountries (Some (normalizeRestrictedCountries (Some ['' USA '', ''USA''])))
       = [''USA'']"
proof -
  have t: "map trim ['' USA '', ''  ''] = [''USA'', '''']" by code_simp
  have n: "normalizeRestrictedCountries (Some ['' USA '', ''USA'']) = [''USA'']" by code_simp
  show ?thesis
    using normalizer_idempotent[of "exMIT\<lparr>restrictedCountries := Some ['' USA '', ''  '']\<rparr>"
        "Some ['' USA '', ''USA'']"] t n
    by (simp add: normalizeUniversity_def)
qed

lemma normalize_keeps_levels:
  "programs (normalizeUniversity x) = programs x"
  "scholarships (normalizeUniversity x) = scholarships x"
  by (simp_all add: normalizeUniversity_def)

lemma updated_stored:
  assumes "find (\<lambda>u. uid u = i) (fst (readStore s)) = Some existing"
  shows "fst (readStore (snd (updateUniversity i p s)))
           ! nat (findIndex (\<lambda>u. uid u = i) (fst (readStore s))) = updated i p existing"
proof -
  from find_findIndex(1)[OF assms]
  have "nat (findIndex (\<lambda>u. uid u = i) (fst (readStore s))) < length (fst (readStore s))"
    by (rule findIndex_found(1))
  then show ?thesis
    by (simp add: updateUniversity_known[OF assms] readStore_writeStore normalize_updated)
qed

text \<open>
  C8. The restricted-countries normalization trims every entry, drops the entries that are
  empty after trimming and keeps, of entries that are then equal as strings (case matters),
  the first one in its place; its result has no duplicates. The list
  \<open>["USA", " usa ", "Iran", ""]\<close> becomes \<open>["USA", "usa", "Iran"]\<close>. This is the list a
  record gets on create, and on an update whose payload carries a list, both in the record
  returned and in the record stored.
\<close>

theorem restricted_countries_normalization:
  "normalizeRestrictedCountries l =
     firstOccurrences (filter (\<lambda>c. c \<noteq> [])
       (map trim (case l of None \<Rightarrow> [] | Some xs \<Rightarrow> xs)))
   \<and> distinct (normalizeRestrictedCountries l)
   \<and> normalizeRestrictedCountries (Some [''USA'', '' usa '', ''Iran'', ''''])
       = [''USA'', ''usa'', ''Iran'']
   \<and> (truthy (p_name p) \<and> truthy (p_portalUrl p) \<and> truthy (p_location p) \<longrightarrow>
        (\<exists>u s'. createUniversity p ev s = (Inr u, s')
           \<and> restrictedCountries u
               = Some (normalizeRestrictedCountries (p_restrictedCountries p))
           \<and> last (fst (readStore s')) = u))
   \<and> (find (\<lambda>u. uid u = i) (fst (readStore s)) = Some existing
        \<and> p_restrictedCountries q = Some xs \<longrightarrow>
        (\<exists>u s'. updateUniversity i q s = (Inr u, s')
           \<and> restrictedCountries u = Some (normalizeRestrictedCountries (Some xs))
           \<and> fst (readStore s') ! nat (findIndex (\<lambda>u. uid u = i) (fst (readStore s))) = u))"
proof (intro conjI impI)
  show "normalizeRestrictedCountries l =
     firstOccurrences (filter (\<lambda>c. c \<noteq> [])
       (map trim (case l of None \<Rightarrow> [] | Some xs \<Rightarrow> xs)))"
    by (rule normalizeRestrictedCountries_eq)
  show "distinct (normalizeRestrictedCountries l)"
    by (simp add: normalizeRestrictedCountries_eq distinct_firstOccurrences)
  show "normalizeRestrictedCountries (Some [''USA'', '' usa '', ''Iran'', ''''])
       = [''USA'', ''usa'', ''Iran'']"
    by code_simp
next
  assume "truthy (p_name p) \<and> truthy (p_portalUrl p) \<and> truthy (p_location p)"
  then have v: "truthy (p_name p)" "truthy (p_portalUrl p)" "truthy (p_location p)"
    by simp_all
  have "restrictedCountries (newUniversity p ev)
      = Some (normalizeRestrictedCountries (p_restrictedCountries p))"
    by (simp add: newUniversity_def)
  then show "\<exists>u s'. createUniversity p ev s = (Inr u, s')
           \<and> restrictedCountries u
               = Some (normalizeRestrictedCountries (p_restrictedCountries p))
           \<and> last (fst (readStore s')) = u"
    unfolding createUniversity_valid[OF v]
    by (simp add: readStore_writeStore normalize_newUniversity)
next
  assume a: "find (\<lambda>u. uid u = i) (fst (readStore s)) = Some existing
        \<and> p_restrictedCountries q = Some xs"
  then have f: "find (\<lambda>u. uid u = i) (fst (readStore s)) = Some existing" by simp
  from a have "restrictedCountries (updated i q existing)
      = Some (normalizeRestrictedCountries (Some xs))"
    by (simp add: updated_def normalizeUniversity_def normalizeRestrictedCountries_clean)
  with updated_stored[OF f, of q]
  show "\<exists>u s'. updateUniversity i q s = (Inr u, s')
           \<and> restrictedCountries u = Some (normalizeRestrictedCountries (Some xs))
           \<and> fst (readStore s') ! nat (findIndex (\<lambda>u. uid u = i) (fst (readStore s))) = u"
    by (simp add: updateUniversity_known[OF f])
qed

theorem restricted_countries_normalization_witness:
  "find (\<lambda>u. uid u = ''u2'') (fst (readStore exStore)) = Some exMIT
   \<and> restrictedCountries (fst (readStore (snd (updateUniversity ''u2''
        (noPayload\<lparr>p_restrictedCountries := Some [''USA'', '' usa '', ''Iran'', '''']\<rparr>) exStore))) ! 1)
       = Some [''USA'', ''usa'', ''Iran'']
   \<and> restrictedCountries (last (fst (readStore (snd (createUniversity
        (exPayload\<lparr>p_restrictedCountries := Some [''USA'', '' usa '', ''Iran'', '''']\<rparr>) exEnv exStore)))))
       = Some [''USA'', ''usa'', ''Iran'']"
proof -
  let ?l = "Some [''USA'', '' usa '', ''Iran'', '''']"
  let ?p = "exPayload\<lparr>p_restrictedCountries := ?l\<rparr>"
  let ?q = "noPayload\<lparr>p_restrictedCountries := ?l\<rparr>"
  note t = restricted_countries_normalization[of ?l ?p exEnv exStore "''u2''" exMIT ?q
      "[''USA'', '' usa '', ''Iran'', '''']"]
  have v: "truthy (p_name ?p) \<and> truthy (p_portalUrl ?p) \<and> truthy (p_location ?p)"
    by (simp add: truthy_def exPayload_def noPayload_def)
  have e: "normalizeRestrictedCountries ?l = [''USA'', ''usa'', ''Iran'']"
    using t by blast
  from t v e have c: "restrictedCountries (last (fst (readStore (snd (createUniversity ?p exEnv exStore)))))
       = Some [''USA'', ''usa'', ''Iran'']"
    by auto
  have "p_restrictedCountries ?q = ?l" by simp
  with t find_exStore_u2 e have u: "restrictedCountries (fst (readStore (snd (updateUniversity ''u2'' ?q exStore))) ! 1)
       = Some [''USA'', ''usa'', ''Iran'']"
    by (auto simp: findIndex_exStore_u2)
  from find_exStore_u2 c u show ?thesis by blast
qed

section \<open>Degree levels of stored records\<close>

text \<open>
  C1 as stated does not hold: nothing fills in a degree level that a record lacks. A
  university created with a \<open>programs\<close> mapping that has only the bachelor level is stored,
  listed and fetched with the masters and phd levels still missing.
\<close>

theorem partial_levels_counterexample:
  "map_sum id uid (fst (createUniversity
       (exPayload\<lparr>p_programs := Some [Bachelor \<mapsto> [exProgram]]\<rparr>) exEnv exStore)) = Inr ''id-7''
   \<and> map_sum id (map uid) (fst (getUniversities exToLowerCase None (snd (createUniversity
       (exPayload\<lparr>p_programs := Some [Bachelor \<mapsto> [exProgram]]\<rparr>) exEnv exStore))))
       = Inr [''u1'', ''u2'', ''id-7'']
   \<and> map_sum id (\<lambda>us. programs (last us) Masters)
        (fst (getUniversities exToLowerCase None (snd (createUniversity
       (exPayload\<lparr>p_programs := Some [Bachelor \<mapsto> [exProgram]]\<rparr>) exEnv exStore))))
       = Inr None
   \<and> map_sum id (\<lambda>u. programs u PhD) (fst (getUniversity ''id-7'' (snd (createUniversity
       (exPayload\<lparr>p_programs := Some [Bachelor \<mapsto> [exProgram]]\<rparr>) exEnv exStore))))
       = Inr None"
proof -
  let ?p = "exPayload\<lparr>p_programs := Some [Bachelor \<mapsto> [exProgram]]\<rparr>"
  let ?u = "newUniversity ?p exEnv"
  have v: "truthy (p_name ?p)" "truthy (p_portalUrl ?p)" "truthy (p_location ?p)"
    by (simp_all add: truthy_def exPayload_def noPayload_def)
  have u: "uid ?u = ''id-7''" "programs ?u Masters = None" "programs ?u PhD = None"
    by (simp_all add: newUniversity_def exPayload_def noPayload_def nextId_exEnv)
  have ids: "map uid (fst (readStore exStore)) = [''u1'', ''u2'']"
    by (simp add: readStore_exStore exStanford_def exMIT_def)
  have n: "map normalizeUniversity (fst (readStore exStore)) = fst (readStore exStore)"
    using exStore_normalized by (rule readStore_normalized)
  have r: "fst (readStore (snd (createUniversity ?p exEnv exStore))) = [exStanford, exMIT, ?u]"
    unfolding createUniversity_valid[OF v]
    using n by (simp add: readStore_writeStore normalize_newUniversity readStore_exStore)
  have g: "find (\<lambda>u. uid u = ''id-7'') [exStanford, exMIT, ?u] = Some ?u"
    using u(1) by (simp add: exStanford_def exMIT_def)
  have f1: "fst (createUniversity ?p exEnv exStore) = Inr ?u"
    by (simp add: createUniversity_valid[OF v])
  have l1: "map uid [exStanford, exMIT, ?u] = [''u1'', ''u2'', ''id-7'']"
    using u(1) by (simp add: exStanford_def exMIT_def)
  show ?thesis
    using l1 by (simp add: getUniversities_None getUniversity_eq r f1 g u)
qed

text \<open>
  C1, amended. The normalizer changes neither \<open>programs\<close> nor \<open>scholarships\<close>, so a
  collection that is written and read again has, record by record, the mappings that were
  written: a level missing in the persisted record is still missing when it is read.
  \<open>createUniversity\<close> stores all three levels, each with the empty sequence, when the
  payload has no \<open>programs\<close> (or \<open>scholarships\<close>) mapping at all, and stores the payload's
  mapping as it is otherwise; that is the record the list operation returns.
\<close>

theorem levels_stored_as_given:
  "programs (normalizeUniversity x) = programs x
   \<and> scholarships (normalizeUniversity x) = scholarships x
   \<and> map programs (fst (readStore (writeStore d s))) = map programs d
   \<and> map scholarships (fst (readStore (writeStore d s))) = map scholarships d
   \<and> (truthy (p_name p) \<and> truthy (p_portalUrl p) \<and> truthy (p_location p) \<longrightarrow>
        (\<exists>u s'. createUniversity p ev s = (Inr u, s')
           \<and> map_sum id last (fst (getUniversities lc None s')) = Inr u
           \<and> programs u = (case p_programs p of
                              None \<Rightarrow> [Bachelor \<mapsto> [], Masters \<mapsto> [], PhD \<mapsto> []]
                            | Some m \<Rightarrow> m)
           \<and> scholarships u = (case p_scholarships p of
                              None \<Rightarrow> [Bachelor \<mapsto> [], Masters \<mapsto> [], PhD \<mapsto> []]
                            | Some m \<Rightarrow> m)))"
proof (intro conjI impI)
  show "programs (normalizeUniversity x) = programs x"
    and "scholarships (normalizeUniversity x) = scholarships x"
    by (rule normalize_keeps_levels)+
  show "map programs (fst (readStore (writeStore d s))) = map programs d"
    by (simp add: readStore_writeStore o_def normalize_keeps_levels)
  show "map scholarships (fst (readStore (writeStore d s))) = map scholarships d"
    by (simp add: readStore_writeStore o_def normalize_keeps_levels)
next
  assume "truthy (p_name p) \<and> truthy (p_portalUrl p) \<and> truthy (p_location p)"
  then have v: "truthy (p_name p)" "truthy (p_portalUrl p)" "truthy (p_location p)"
    by simp_all
  show "\<exists>u s'. createUniversity p ev s = (Inr u, s')
           \<and> map_sum id last (fst (getUniversities lc None s')) = Inr u
           \<and> programs u = (case p_programs p of
                              None \<Rightarrow> [Bachelor \<mapsto> [], Masters \<mapsto> [], PhD \<mapsto> []]
                            | Some m \<Rightarrow> m)
           \<and> scholarships u = (case p_scholarships p of
                              None \<Rightarrow> [Bachelor \<mapsto> [], Masters \<mapsto> [], PhD \<mapsto> []]
                            | Some m \<Rightarrow> m)"
  proof -
    have "programs (newUniversity p ev) =
        (case p_programs p of None \<Rightarrow> [Bachelor \<mapsto> [], Masters \<mapsto> [], PhD \<mapsto> []]
         | Some m \<Rightarrow> m)"
      and "scholarships (newUniversity p ev) =
        (case p_scholarships p of None \<Rightarrow> [Bachelor \<mapsto> [], Masters \<mapsto> [], PhD \<mapsto> []]
         | Some m \<Rightarrow> m)"
      by (simp_all add: newUniversity_def emptyLevels_def split: option.splits)
    then show ?thesis
      unfolding createUniversity_valid[OF v]
      by (simp add: getUniversities_None readStore_writeStore normalize_newUniversity)
  qed
qed

theorem levels_stored_as_given_witness:
  "(\<exists>u s'. createUniversity exPayload exEnv exStore = (Inr u, s')
       \<and> map_sum id last (fst (getUniversities exToLowerCase None s')) = Inr u
       \<and> programs u = [Bachelor \<mapsto> [], Masters \<mapsto> [], PhD \<mapsto> []]
       \<and> scholarships u = [Bachelor \<mapsto> [], Masters \<mapsto> [], PhD \<mapsto> []])
   \<and> (\<exists>u s'. createUniversity (exPayload\<lparr>p_programs := Some [Bachelor \<mapsto> [exProgram]]\<rparr>)
          exEnv exStore = (Inr u, s')
       \<and> map_sum id last (fst (getUniversities exToLowerCase None s')) = Inr u
       \<and> programs u = [Bachelor \<mapsto> [exProgram]])"
proof -
  let ?p = "exPayload\<lparr>p_programs := Some [Bachelor \<mapsto> [exProgram]]\<rparr>"
  have v: "truthy (p_name exPayload) \<and> truthy (p_portalUrl exPayload) \<and> truthy (p_location exPayload)"
    "truthy (p_name ?p) \<and> truthy (p_portalUrl ?p) \<and> truthy (p_location ?p)"
    by (simp_all add: truthy_def exPayload_def noPayload_def)
  have e: "p_programs exPayload = None" "p_scholarships exPayload = None"
    "p_programs ?p = Some [Bachelor \<mapsto> [exProgram]]"
    by (simp_all add: exPayload_def noPayload_def)
  from levels_stored_as_given[of exMIT "[]" exStore exPayload exEnv exToLowerCase] v(1) e
  have a: "\<exists>u s'. createUniversity exPayload exEnv exStore = (Inr u, s')
       \<and> map_sum id last (fst (getUniversities exToLowerCase None s')) = Inr u
       \<and> programs u = [Bachelor \<mapsto> [], Masters \<mapsto> [], PhD \<mapsto> []]
       \<and> scholarships u = [Bachelor \<mapsto> [], Masters \<mapsto> [], PhD \<mapsto> []]"
    by simp
  from levels_stored_as_given[of exMIT "[]" exStore ?p exEnv exToLowerCase] v(2) e
  have "\<exists>u s'. createUniversity ?p exEnv exStore = (Inr u, s')
       \<and> map_sum id last (fst (getUniversities exToLowerCase None s')) = Inr u
       \<and> programs u = [Bachelor \<mapsto> [exProgram]]
       \<and> scholarships u = [Bachelor \<mapsto> [], Masters \<mapsto> [], PhD \<mapsto> []]"
    by simp
  then have b: "\<exists>u s'. createUniversity ?p exEnv exStore = (Inr u, s')
       \<and> map_sum id last (fst (getUniversities exToLowerCase None s')) = Inr u
       \<and> programs u = [Bachelor \<mapsto> [exProgram]]"
    by blast
  from a b show ?thesis by blast
qed

section \<open>Create\<close>

text \<open>
  C2 as stated does not hold: no id is checked against the collection. The id is
  \<open>payload.id\<close> when the payload has one, taken as it is: creating with the id of a stored
  record succeeds and leaves two records with that id. And where \<open>crypto.randomUUID\<close> does
  not exist the generated id is the clock reading: two creates within one millisecond get
  the same id.
\<close>

theorem create_id_collision_counterexample:
  "map uid (fst (readStore exStore)) = [''u1'', ''u2'']
   \<and> map_sum id uid (fst (createUniversity (exPayload\<lparr>p_id := Some ''u1''\<rparr>) exEnv exStore))
       = Inr ''u1''
   \<and> map uid (fst (readStore (snd (createUniversity (exPayload\<lparr>p_id := Some ''u1''\<rparr>) exEnv exStore))))
       = [''u1'', ''u2'', ''u1'']
   \<and> p_id exPayload = None
   \<and> map uid (fst (readStore (snd (createUniversity exPayload exEnvNoCrypto
         (snd (createUniversity exPayload exEnvNoCrypto exStore))))))
       = [''u1'', ''u2'', ''uni-1700000000000'', ''uni-1700000000000'']"
proof -
  let ?p = "exPayload\<lparr>p_id := Some ''u1''\<rparr>"
  let ?s1 = "snd (createUniversity exPayload exEnvNoCrypto exStore)"
  have v: "truthy (p_name ?p)" "truthy (p_portalUrl ?p)" "truthy (p_location ?p)"
    by (simp_all add: truthy_def exPayload_def noPayload_def)
  have w: "truthy (p_name exPayload)" "truthy (p_portalUrl exPayload)"
      "truthy (p_location exPayload)"
    by (simp_all add: truthy_def exPayload_def noPayload_def)
  have u: "uid (newUniversity ?p exEnv) = ''u1''"
    by (simp add: newUniversity_def)
  have i: "p_id exPayload = None"
    by (simp add: exPayload_def noPayload_def)
  have t: "uid (newUniversity exPayload exEnvNoCrypto) = ''uni-1700000000000''"
    by (simp add: newUniversity_def i nextId_exEnvNoCrypto)
  have ids: "map uid (fst (readStore exStore)) = [''u1'', ''u2'']"
    by (simp add: readStore_exStore exStanford_def exMIT_def)
  have n: "map normalizeUniversity (fst (readStore exStore)) = fst (readStore exStore)"
    using exStore_normalized by (rule readStore_normalized)
  have a: "map uid (fst (readStore (snd (createUniversity ?p exEnv exStore))))
       = [''u1'', ''u2'', ''u1'']"
    unfolding createUniversity_valid[OF v]
    using ids u n by (simp add: readStore_writeStore normalize_newUniversity)
  have b: "map_sum id uid (fst (createUniversity ?p exEnv exStore)) = Inr ''u1''"
    unfolding createUniversity_valid[OF v] using u by simp
  have r1: "fst (readStore ?s1) = fst (readStore exStore) @ [newUniversity exPayload exEnvNoCrypto]"
    unfolding createUniversity_valid[OF w]
    using n by (simp add: readStore_writeStore normalize_newUniversity)
  have n1: "map normalizeUniversity (fst (readStore ?s1)) = fst (readStore ?s1)"
    by (simp add: r1 n normalize_newUniversity)
  have r2: "fst (readStore (snd (createUniversity exPayload exEnvNoCrypto ?s1)))
       = fst (readStore ?s1) @ [newUniversity exPayload exEnvNoCrypto]"
    unfolding createUniversity_valid[OF w, of exEnvNoCrypto ?s1]
    using n1 by (simp add: readStore_writeStore normalize_newUniversity)
  have c: "map uid (fst (readStore (snd (createUniversity exPayload exEnvNoCrypto ?s1))))
       = [''u1'', ''u2'', ''uni-1700000000000'', ''uni-1700000000000'']"
    by (simp only: r2 r1 map_append ids list.map t append.simps)
  from ids b a i c show ?thesis by blast
qed

text \<open>
  C2, amended. In a state that satisfies the module's invariant, for a payload whose
  \<open>name\<close>, \<open>portalUrl\<close> and \<open>location\<close> are present and non-empty, \<open>createUniversity\<close>
  succeeds. The record's id is the payload's id when it has one; otherwise it is
  \<open>crypto.randomUUID()\<close> where that exists and \<open>uni-\<close> followed by \<open>Date.now()\<close> in decimal
  where it does not, and such a clock-made id equals the one another call would make
  exactly when the two clock readings are equal. The record is already normalized; it is
  appended to the collection as read, which becomes the in-memory collection and, where
  there is a storage, the slot's content; and the record returned is the record stored.
\<close>

theorem create_appends_record:
  assumes "storeNormalized s"
    and "truthy (p_name p)" and "truthy (p_portalUrl p)" and "truthy (p_location p)"
  shows "\<exists>u s'. createUniversity p ev s = (Inr u, s')
     \<and> uid u = (case p_id p of
                  Some i \<Rightarrow> i
                | None \<Rightarrow> (case randomUUID ev of
                             Some r \<Rightarrow> r
                           | None \<Rightarrow> ''uni-'' @ showNat (dateNow ev)))
     \<and> (p_id p = None \<and> randomUUID ev = None \<longrightarrow>
          (\<forall>ev'. randomUUID ev' = None \<longrightarrow>
             (nextId ev' = uid u \<longleftrightarrow> dateNow ev' = dateNow ev)))
     \<and> name u = p_name p \<and> portalUrl u = the (p_portalUrl p)
     \<and> location u = p_location p
     \<and> normalizeUniversity u = u
     \<and> inMemoryStore s' = fst (readStore s) @ [u]
     \<and> localStorage s' =
         (case localStorage s of None \<Rightarrow> None
          | Some x \<Rightarrow> Some (Parsed (fst (readStore s) @ [u])))
     \<and> fst (readStore s') = fst (readStore s) @ [u]"
proof -
  let ?u = "newUniversity p ev"
  have n: "map normalizeUniversity (fst (readStore s)) = fst (readStore s)"
    using assms(1) by (rule readStore_normalized)
  have f: "uid ?u = (case p_id p of
                  Some i \<Rightarrow> i
                | None \<Rightarrow> (case randomUUID ev of
                             Some r \<Rightarrow> r
                           | None \<Rightarrow> ''uni-'' @ showNat (dateNow ev)))"
    "name ?u = p_name p" "portalUrl ?u = the (p_portalUrl p)"
    "location ?u = p_location p"
    by (simp_all add: newUniversity_def nextId_def split: option.splits)
  have g: "p_id p = None \<and> randomUUID ev = None \<longrightarrow>
          (\<forall>ev'. randomUUID ev' = None \<longrightarrow>
             (nextId ev' = uid ?u \<longleftrightarrow> dateNow ev' = dateNow ev))"
  proof (intro impI allI)
    fix ev' :: env
    assume a: "p_id p = None \<and> randomUUID ev = None" and b: "randomUUID ev' = None"
    from a have "uid ?u = nextId ev" by (simp add: newUniversity_def)
    with a b show "nextId ev' = uid ?u \<longleftrightarrow> dateNow ev' = dateNow ev"
      by (simp add: nextId_fallback_inj)
  qed
  have l: "localStorage (writeStore (fst (readStore s) @ [?u]) (snd (readStore s))) =
     (case localStorage s of None \<Rightarrow> None
      | Some x \<Rightarrow> Some (Parsed (fst (readStore s) @ [?u])))"
    by (simp add: localStorage_write_after_read n normalize_newUniversity split: option.splits)
  have r: "fst (readStore (writeStore (fst (readStore s) @ [?u]) (snd (readStore s))))
      = fst (readStore s) @ [?u]"
    by (simp add: readStore_writeStore n normalize_newUniversity)
  have m: "inMemoryStore (writeStore (fst (readStore s) @ [?u]) (snd (readStore s)))
      = fst (readStore s) @ [?u]"
    by (simp add: inMemoryStore_writeStore n normalize_newUniversity)
  from f g l r m normalize_newUniversity[of p ev] show ?thesis
    unfolding createUniversity_valid[OF assms(2-4)]
    by (intro exI[of _ ?u] exI[of _ "writeStore (fst (readStore s) @ [?u]) (snd (readStore s))"])
       blast
qed

theorem create_appends_record_witness:
  "storeNormalized exStore
   \<and> map uid (fst (readStore exStore)) = [''u1'', ''u2'']
   \<and> map_sum id uid (fst (createUniversity exPayload exEnvNoCrypto exStore))
       = Inr ''uni-1700000000000''
   \<and> map uid (fst (readStore (snd (createUniversity exPayload exEnvNoCrypto exStore))))
       = [''u1'', ''u2'', ''uni-1700000000000'']
   \<and> nextId (exEnvNoCrypto\<lparr>dateNow := 1700000000001\<rparr>) \<noteq> ''uni-1700000000000''
   \<and> map_sum id uid (fst (createUniversity exPayload exEnv exStore)) = Inr ''id-7''"
proof -
  have v: "truthy (p_name exPayload)" "truthy (p_portalUrl exPayload)" "truthy (p_location exPayload)"
    by (simp_all add: truthy_def exPayload_def noPayload_def)
  have ids: "map uid (fst (readStore exStore)) = [''u1'', ''u2'']"
    by (simp add: readStore_exStore exStanford_def exMIT_def)
  have i: "p_id exPayload = None"
    by (simp add: exPayload_def noPayload_def)
  have e: "randomUUID exEnvNoCrypto = None" "dateNow exEnvNoCrypto = 1700000000000"
      "randomUUID (exEnvNoCrypto\<lparr>dateNow := 1700000000001\<rparr>) = None"
      "randomUUID exEnv = Some ''id-7''"
    by (simp_all add: exEnvNoCrypto_def exEnv_def)
  from create_appends_record[OF exStore_normalized v, of exEnvNoCrypto]
  obtain u s' where r: "createUniversity exPayload exEnvNoCrypto exStore = (Inr u, s')"
    and u: "uid u = ''uni-1700000000000''"
    and d: "\<forall>ev'. randomUUID ev' = None \<longrightarrow>
             (nextId ev' = uid u \<longleftrightarrow> dateNow ev' = dateNow exEnvNoCrypto)"
    and st: "fst (readStore s') = fst (readStore exStore) @ [u]"
    by (auto simp: i e showNat_example)
  from d[rule_format, of "exEnvNoCrypto\<lparr>dateNow := 1700000000001\<rparr>"] e u
  have x: "nextId (exEnvNoCrypto\<lparr>dateNow := 1700000000001\<rparr>) \<noteq> ''uni-1700000000000''"
    by simp
  from create_appends_record[OF exStore_normalized v, of exEnv]
  obtain u2 s2 where r2: "createUniversity exPayload exEnv exStore = (Inr u2, s2)"
    and u2: "uid u2 = ''id-7''"
    by (auto simp: i e)
  from r u st ids x r2 u2 exStore_normalized show ?thesis
    by simp
qed

text \<open>
  C6. \<open>createUniversity\<close> fails with the validation error exactly when the payload's
  \<open>name\<close>, \<open>portalUrl\<close> or \<open>location\<close> is missing or the empty string, and then the
  state is the one it was called in: \<open>inMemoryStore\<close> and the slot are untouched, nothing
  is appended and nothing is written. With all three present and non-empty it succeeds.
\<close>

theorem create_validation_error:
  "(p_name p = None \<or> p_name p = Some [] \<or> p_portalUrl p = None \<or> p_portalUrl p = Some []
      \<or> p_location p = None \<or> p_location p = Some []
    \<longrightarrow> createUniversity p ev s = (Inl ValidationError, s))
   \<and> (p_name p \<noteq> None \<and> p_name p \<noteq> Some [] \<and> p_portalUrl p \<noteq> None \<and> p_portalUrl p \<noteq> Some []
      \<and> p_location p \<noteq> None \<and> p_location p \<noteq> Some []
    \<longrightarrow> (\<exists>u s'. createUniversity p ev s = (Inr u, s')))"
proof (intro conjI impI)
  assume "p_name p = None \<or> p_name p = Some [] \<or> p_portalUrl p = None \<or> p_portalUrl p = Some []
      \<or> p_location p = None \<or> p_location p = Some []"
  then have "\<not> (truthy (p_name p) \<and> truthy (p_portalUrl p) \<and> truthy (p_location p))"
    by (auto simp: truthy_iff)
  then show "createUniversity p ev s = (Inl ValidationError, s)"
    by (rule createUniversity_invalid)
next
  assume "p_name p \<noteq> None \<and> p_name p \<noteq> Some [] \<and> p_portalUrl p \<noteq> None \<and> p_portalUrl p \<noteq> Some []
      \<and> p_location p \<noteq> None \<and> p_location p \<noteq> Some []"
  then have "truthy (p_name p)" "truthy (p_portalUrl p)" "truthy (p_location p)"
    by (simp_all add: truthy_iff)
  then show "\<exists>u s'. createUniversity p ev s = (Inr u, s')"
    by (simp add: createUniversity_valid)
qed

theorem create_validation_error_witness:
  "createUniversity (exPayload\<lparr>p_portalUrl := None\<rparr>) exEnv exStore = (Inl ValidationError, exStore)
   \<and> createUniversity (exPayload\<lparr>p_location := Some []\<rparr>) exEnv exStore
       = (Inl ValidationError, exStore)
   \<and> (\<exists>u s'. createUniversity exPayload exEnv exStore = (Inr u, s'))"
  using create_validation_error[of "exPayload\<lparr>p_portalUrl := None\<rparr>" exEnv exStore]
    create_validation_error[of "exPayload\<lparr>p_location := Some []\<rparr>" exEnv exStore]
    create_validation_error[of exPayload exEnv exStore]
  by (simp add: exPayload_def noPayload_def)

text \<open>
  C10. The required-field check of \<open>createUniversity\<close> tests for a missing or empty
  value, not for blankness: the payload whose \<open>name\<close> is the single space, with
  \<open>portalUrl\<close> and \<open>location\<close> non-empty, is accepted in every state, and the record
  returned and stored carries the name unchanged, although it is blank after trimming.
\<close>

theorem whitespace_name_accepted:
  "\<exists>u s'. createUniversity (exPayload\<lparr>p_name := Some '' ''\<rparr>) ev s = (Inr u, s')
     \<and> name u = Some '' '' \<and> map_option trim (name u) = Some []
     \<and> last (inMemoryStore s') = u \<and> last (fst (readStore s')) = u"
proof -
  let ?p = "exPayload\<lparr>p_name := Some '' ''\<rparr>"
  have v: "truthy (p_name ?p)" "truthy (p_portalUrl ?p)" "truthy (p_location ?p)"
    by (simp_all add: truthy_def exPayload_def noPayload_def)
  have n: "name (newUniversity ?p ev) = Some '' ''"
    by (simp add: newUniversity_def)
  have t: "trim '' '' = []" by code_simp
  show ?thesis
    unfolding createUniversity_valid[OF v]
    by (simp add: n t inMemoryStore_writeStore readStore_writeStore normalize_newUniversity)
qed

theorem whitespace_name_accepted_witness:
  "\<exists>u s'. createUniversity (exPayload\<lparr>p_name := Some '' ''\<rparr>) exEnv exStore = (Inr u, s')
     \<and> name u = Some '' '' \<and> map_option trim (name u) = Some []
     \<and> last (inMemoryStore s') = u \<and> last (fst (readStore s')) = u"
  by (rule whitespace_name_accepted)

section \<open>Update and get\<close>

lemma updated_fields:
  "uid (updated i p e) = i"
  "name (updated i p e) = (case p_name p of None \<Rightarrow> name e | Some v \<Rightarrow> Some v)"
  "portalUrl (updated i p e) = (case p_portalUrl p of None \<Rightarrow> portalUrl e | Some v \<Rightarrow> v)"
  "location (updated i p e) = (case p_location p of None \<Rightarrow> location e | Some v \<Rightarrow> Some v)"
  "overview (updated i p e) = (case p_overview p of None \<Rightarrow> overview e | Some v \<Rightarrow> v)"
  "fees (updated i p e) = (case p_fees p of None \<Rightarrow> fees e | Some v \<Rightarrow> v)"
  "programs (updated i p e) = (case p_programs p of None \<Rightarrow> programs e | Some v \<Rightarrow> v)"
  "scholarships (updated i p e) = (case p_scholarships p of None \<Rightarrow> scholarships e | Some v \<Rightarrow> v)"
  by (simp_all add: updated_def normalizeUniversity_def spread_def split: option.splits)

lemma updated_restrictedCountries:
  assumes "normalizeUniversity e = e"
  shows "restrictedCountries (updated i p e) =
     (case p_restrictedCountries p of None \<Rightarrow> restrictedCountries e
      | Some l \<Rightarrow> Some (normalizeRestrictedCountries (Some l)))"
proof (cases "p_restrictedCountries p")
  case None
  have "restrictedCountries (updated i p e) =
      Some (filter (\<lambda>c. c \<noteq> []) (map trim
           (case restrictedCountries e of None \<Rightarrow> [] | Some l \<Rightarrow> l)))"
    using None by (simp add: updated_def normalizeUniversity_def)
  with normalized_restrictedCountries[OF assms] None show ?thesis by simp
next
  case (Some l)
  then show ?thesis
    by (simp add: updated_def normalizeUniversity_def normalizeRestrictedCountries_clean)
qed

text \<open>
  C3. In a state that satisfies the module's invariant, when the collection has a record
  with the given id, \<open>updateUniversity\<close> succeeds with the first such record merged with
  the payload: every property the payload has
  replaces the record's, every property it does not have keeps the record's value
  (including \<open>restrictedCountries\<close>, which a payload's list replaces in normalized form),
  and the id is the id argument, which is the record's own, whatever id the payload
  carries. The stored collection is the one read with that record replaced and every
  other record as it was.
\<close>

theorem update_shallow_merge:
  assumes "storeNormalized s" and "find (\<lambda>u. uid u = i) (fst (readStore s)) = Some existing"
  shows "\<exists>u s'. updateUniversity i p s = (Inr u, s')
     \<and> uid u = i \<and> uid u = uid existing
     \<and> name u = (case p_name p of None \<Rightarrow> name existing | Some v \<Rightarrow> Some v)
     \<and> portalUrl u = (case p_portalUrl p of None \<Rightarrow> portalUrl existing | Some v \<Rightarrow> v)
     \<and> location u = (case p_location p of None \<Rightarrow> location existing | Some v \<Rightarrow> Some v)
     \<and> overview u = (case p_overview p of None \<Rightarrow> overview existing | Some v \<Rightarrow> v)
     \<and> fees u = (case p_fees p of None \<Rightarrow> fees existing | Some v \<Rightarrow> v)
     \<and> programs u = (case p_programs p of None \<Rightarrow> programs existing | Some v \<Rightarrow> v)
     \<and> scholarships u = (case p_scholarships p of None \<Rightarrow> scholarships existing | Some v \<Rightarrow> v)
     \<and> restrictedCountries u =
         (case p_restrictedCountries p of None \<Rightarrow> restrictedCountries existing
          | Some l \<Rightarrow> Some (normalizeRestrictedCountries (Some l)))
     \<and> fst (readStore s') =
         (fst (readStore s))[nat (findIndex (\<lambda>u. uid u = i) (fst (readStore s))) := u]"
proof -
  let ?us = "fst (readStore s)"
  let ?u = "updated i p existing"
  from assms(2) have mem: "existing \<in> set ?us" and id: "uid existing = i"
    by (auto simp: find_Some_iff)
  from assms(1) mem have ne: "normalizeUniversity existing = existing"
    by (rule readStore_member_normalized)
  have stored: "fst (readStore (snd (updateUniversity i p s)))
      = ?us[nat (findIndex (\<lambda>u. uid u = i) ?us) := ?u]"
    by (simp add: updateUniversity_known[OF assms(2)] readStore_writeStore map_update
        readStore_normalized[OF assms(1)] normalize_updated)
  show ?thesis
    using stored id
    by (simp add: updateUniversity_known[OF assms(2)] updated_fields
        updated_restrictedCountries[OF ne])
qed

theorem update_shallow_merge_witness:
  "storeNormalized exStore
   \<and> find (\<lambda>u. uid u = ''u1'') (fst (readStore exStore)) = Some exStanford
   \<and> fst (updateUniversity ''u1''
        (noPayload\<lparr>p_id := Some ''u9'', p_overview := Some (Some ''new text'')\<rparr>) exStore)
       = Inr (exStanford\<lparr>overview := Some ''new text''\<rparr>)
   \<and> fst (readStore (snd (updateUniversity ''u1''
        (noPayload\<lparr>p_id := Some ''u9'', p_overview := Some (Some ''new text'')\<rparr>) exStore)))
       = [exStanford\<lparr>overview := Some ''new text''\<rparr>, exMIT]"
proof -
  let ?p = "noPayload\<lparr>p_id := Some ''u9'', p_overview := Some (Some ''new text'')\<rparr>"
  have f: "find (\<lambda>u. uid u = ''u1'') (fst (readStore exStore)) = Some exStanford"
    by (simp add: readStore_exStore exStanford_def)
  have ix: "findIndex (\<lambda>u. uid u = ''u1'') (fst (readStore exStore)) = 0"
    by (simp add: readStore_exStore exStanford_def)
  from update_shallow_merge[OF exStore_normalized f, of ?p]
  obtain u s' where r: "updateUniversity ''u1'' ?p exStore = (Inr u, s')"
    and flds: "uid u = uid exStanford" "name u = name exStanford"
      "portalUrl u = portalUrl exStanford" "location u = location exStanford"
      "overview u = Some ''new text''" "fees u = fees exStanford"
      "programs u = programs exStanford" "scholarships u = scholarships exStanford"
      "restrictedCountries u = restrictedCountries exStanford"
    and st: "fst (readStore s') = (fst (readStore exStore))[0 := u]"
    by (auto simp: noPayload_def ix)
  from flds have "u = exStanford\<lparr>overview := Some ''new text''\<rparr>"
    by (intro University.equality) simp_all
  with r st exStore_normalized f show ?thesis
    by (simp add: readStore_exStore)
qed

text \<open>
  C7. In a state that satisfies the module's invariant, for an id that no record of the
  collection carries, \<open>getUniversity\<close> and \<open>updateUniversity\<close> fail with the not-found
  error. The failed update leaves the state
  that its \<open>readStore()\<close> call leaves, and the collection read from it is the collection
  read before: no record is changed, added or removed.
\<close>

theorem unknown_id_not_found:
  assumes "storeNormalized s" and "\<forall>u \<in> set (fst (readStore s)). uid u \<noteq> i"
  shows "fst (getUniversity i s) = Inl NotFound
    \<and> fst (updateUniversity i p s) = Inl NotFound
    \<and> snd (updateUniversity i p s) = snd (readStore s)
    \<and> fst (readStore (snd (updateUniversity i p s))) = fst (readStore s)"
proof -
  from assms(2) have "find (\<lambda>u. uid u = i) (fst (readStore s)) = None"
    by (simp add: find_None_iff)
  then have g: "fst (getUniversity i s) = Inl NotFound"
    by (simp add: getUniversity_eq)
  from assms(2) have u: "updateUniversity i p s = (Inl NotFound, snd (readStore s))"
    by (rule updateUniversity_unknown)
  from assms(1) have "fst (readStore (snd (readStore s))) = fst (readStore s)"
    by (rule readStore_twice)
  with g u show ?thesis by simp
qed

theorem unknown_id_not_found_witness:
  "storeNormalized exStore
   \<and> map uid (fst (readStore exStore)) = [''u1'', ''u2'']
   \<and> fst (getUniversity ''u3'' exStore) = Inl NotFound
   \<and> fst (updateUniversity ''u3'' exPayload exStore) = Inl NotFound
   \<and> fst (readStore (snd (updateUniversity ''u3'' exPayload exStore))) = fst (readStore exStore)"
proof -
  have ids: "map uid (fst (readStore exStore)) = [''u1'', ''u2'']"
    by (simp add: readStore_exStore exStanford_def exMIT_def)
  have "\<forall>u \<in> set (fst (readStore exStore)). uid u \<noteq> ''u3''"
    by (simp add: readStore_exStore exStanford_def exMIT_def)
  from unknown_id_not_found[OF exStore_normalized this, of exPayload] exStore_normalized ids
  show ?thesis by blast
qed

section \<open>Filtering\<close>

lemma matchesDegree_iff:
  "matchesDegree f u \<longleftrightarrow>
     (case f_degreeLevel f of None \<Rightarrow> True
      | Some level \<Rightarrow> (\<exists>ps. programs u level = Some ps \<and> ps \<noteq> []))"
  by (simp add: matchesDegree_def split: option.splits)

lemma matchesSearch_total:
  assumes "truthy (f_search f) \<longrightarrow> name u \<noteq> None"
  shows "matchesSearch lc f u =
     Inr (case f_search f of None \<Rightarrow> True
          | Some q \<Rightarrow> q = [] \<or> (\<exists>n pre suf. name u = Some n \<and> lc n = pre @ lc q @ suf))"
  using assms
  by (auto simp: matchesSearch_def truthy_def includesStr_iff split: option.splits)

lemma matchesLocation_total:
  assumes "truthy (f_location f) \<longrightarrow> location u \<noteq> None"
  shows "matchesLocation lc f u =
     Inr (case f_location f of None \<Rightarrow> True
          | Some l \<Rightarrow> l = [] \<or> (\<exists>m. location u = Some m \<and> lc m = lc l))"
  using assms
  by (auto simp: matchesLocation_def truthy_def split: option.splits)

lemma filterArray_total:
  assumes "\<forall>x \<in> set xs. callback x = Inr (P x)"
  shows "filterArray callback xs = Inr (filter P xs)"
  using assms by (induction xs) simp_all

lemma filterArray_throws:
  assumes "x \<in> set xs" and "callback x = Inl e"
  shows "\<exists>e'. filterArray callback xs = Inl e'"
  using assms by (induction xs) (auto split: sum.splits)

text \<open>
  C4 as stated does not hold: filtering can fail. A record that came out of the slot
  without a \<open>name\<close> passes \<open>readStore\<close> and is listed when there is no filter, and a
  search filter then makes \<open>university.name.toLowerCase()\<close> throw, so the list operation
  is rejected with a \<open>TypeError\<close>. (This does not depend on what \<open>toLowerCase\<close> is.)
\<close>

theorem filter_type_error_counterexample:
  "map_sum id (map uid) (fst (getUniversities exToLowerCase None exLegacyStore))
       = Inr [''u1'', ''u3'']
   \<and> map_sum id (map name) (fst (getUniversities exToLowerCase None exLegacyStore))
       = Inr [Some ''Stanford University'', None]
   \<and> fst (getUniversities exToLowerCase
        (Some \<lparr>f_search = Some ''stan'', f_location = None, f_degreeLevel = None\<rparr>) exLegacyStore)
       = Inl TypeError"
proof -
  have r: "fst (readStore exLegacyStore) = [exStanford, normalizeUniversity exNameless]"
    by (simp add: readStore_fst exLegacyStore_def exStanford_normalized)
  have n: "uid (normalizeUniversity exNameless) = ''u3''"
    "name (normalizeUniversity exNameless) = None"
    by (simp_all add: normalizeUniversity_def exNameless_def)
  have s: "uid exStanford = ''u1''" "name exStanford = Some ''Stanford University''"
    by (simp_all add: exStanford_def)
  have a: "fst (getUniversities exToLowerCase None exLegacyStore)
      = Inr [exStanford, normalizeUniversity exNameless]"
    by (simp add: getUniversities_None r)
  have b: "fst (getUniversities exToLowerCase
        (Some \<lparr>f_search = Some ''stan'', f_location = None, f_degreeLevel = None\<rparr>) exLegacyStore)
       = Inl TypeError"
    using ex_search(1)
    by (simp add: getUniversities_def split_def Let_def r filterUniversities_def matches_def
        matchesSearch_def matchesLocation_def truthy_def n s)
  from a b n s show ?thesis by simp
qed

text \<open>
  C4, amended. With a filter object, \<open>filterUniversities\<close> keeps, in order, the
  universities for which three conditions hold together: the search text is absent or
  empty or the lower-cased name contains the lower-cased search text; the location filter
  is absent or empty or the lower-cased location equals the lower-cased filter, as a whole
  string; the degree level is absent or the university has at least one program under it.
  Lower-cased is what \<open>String.prototype.toLowerCase\<close> returns, whatever function that is.
  This is so whenever every record has a \<open>name\<close> if there is a search text and a
  \<open>location\<close> if there is a location filter; then filtering does not fail. Without a
  filter object, and with one that has no property, every university is kept. The input
  list is not changed.
\<close>

theorem filter_is_conjunction:
  "((truthy (f_search f) \<longrightarrow> (\<forall>u \<in> set us. name u \<noteq> None))
      \<and> (truthy (f_location f) \<longrightarrow> (\<forall>u \<in> set us. location u \<noteq> None))
    \<longrightarrow> filterUniversities lc us (Some f) =
          Inr (filter (\<lambda>u.
              (case f_search f of None \<Rightarrow> True
               | Some q \<Rightarrow> q = [] \<or> (\<exists>n pre suf. name u = Some n \<and> lc n = pre @ lc q @ suf))
            \<and> (case f_location f of None \<Rightarrow> True
               | Some l \<Rightarrow> l = [] \<or> (\<exists>m. location u = Some m \<and> lc m = lc l))
            \<and> (case f_degreeLevel f of None \<Rightarrow> True
               | Some level \<Rightarrow> (\<exists>ps. programs u level = Some ps \<and> ps \<noteq> []))) us))
   \<and> filterUniversities lc us None = Inr us
   \<and> filterUniversities lc us (Some \<lparr>f_search = None, f_location = None, f_degreeLevel = None\<rparr>)
       = Inr us"
proof (intro conjI impI)
  assume h: "(truthy (f_search f) \<longrightarrow> (\<forall>u \<in> set us. name u \<noteq> None))
      \<and> (truthy (f_location f) \<longrightarrow> (\<forall>u \<in> set us. location u \<noteq> None))"
  let ?P = "\<lambda>u.
              (case f_search f of None \<Rightarrow> True
               | Some q \<Rightarrow> q = [] \<or> (\<exists>n pre suf. name u = Some n \<and> lc n = pre @ lc q @ suf))
            \<and> (case f_location f of None \<Rightarrow> True
               | Some l \<Rightarrow> l = [] \<or> (\<exists>m. location u = Some m \<and> lc m = lc l))
            \<and> (case f_degreeLevel f of None \<Rightarrow> True
               | Some level \<Rightarrow> (\<exists>ps. programs u level = Some ps \<and> ps \<noteq> []))"
  have "\<forall>u \<in> set us. matches lc f u = Inr (?P u)"
  proof
    fix u assume u: "u \<in> set us"
    with h have a: "truthy (f_search f) \<longrightarrow> name u \<noteq> None"
      and b: "truthy (f_location f) \<longrightarrow> location u \<noteq> None"
      by blast+
    show "matches lc f u = Inr (?P u)"
      unfolding matches_def matchesSearch_total[OF a] matchesLocation_total[OF b]
        matchesDegree_iff
      by simp
  qed
  then have "filterArray (\<lambda>u. matches lc f u) us = Inr (filter ?P us)"
    by (rule filterArray_total)
  then show "filterUniversities lc us (Some f) = Inr (filter ?P us)"
    by (simp add: filterUniversities_def)
next
  show "filterUniversities lc us None = Inr us"
    by (simp add: filterUniversities_def)
next
  have "\<forall>u \<in> set us. matches lc \<lparr>f_search = None, f_location = None, f_degreeLevel = None\<rparr> u
      = Inr ((\<lambda>u. True) u)"
    by (simp add: matches_def matchesSearch_def matchesLocation_def matchesDegree_def truthy_def)
  then have "filterArray
       (\<lambda>u. matches lc \<lparr>f_search = None, f_location = None, f_degreeLevel = None\<rparr> u) us
      = Inr (filter (\<lambda>u. True) us)"
    by (rule filterArray_total)
  then show "filterUniversities lc us
       (Some \<lparr>f_search = None, f_location = None, f_degreeLevel = None\<rparr>) = Inr us"
    by (simp add: filterUniversities_def)
qed

lemma ex_search_more:
  "\<not> includesStr (exToLowerCase (CHR 0xC9 # ''cole'')) (exToLowerCase ''stan'')"
  "exToLowerCase ''Paris'' \<noteq> exToLowerCase ''usa''"
  "exToLowerCase ''Paris'' \<noteq> exToLowerCase ''us''"
  by code_simp+

lemma ex_universities:
  "name exStanford = Some ''Stanford University''" "location exStanford = Some ''USA''"
  "programs exStanford Bachelor = Some [exProgram]" "programs exStanford PhD = Some []"
  "name exMIT = Some ''MIT''" "location exMIT = Some ''usa''"
  "programs exMIT Bachelor = Some []" "programs exMIT PhD = Some []"
  "name exEcole = Some (CHR 0xC9 # ''cole'')" "location exEcole = Some ''Paris''"
  "programs exEcole Bachelor = Some []" "programs exEcole PhD = Some []"
  by (simp_all add: exStanford_def exMIT_def exEcole_def emptyLevels_def)

theorem filter_is_conjunction_witness:
  "None \<notin> set (map name [exStanford, exMIT, exEcole])
   \<and> None \<notin> set (map location [exStanford, exMIT, exEcole])
   \<and> filterUniversities exToLowerCase [exStanford, exMIT, exEcole]
        (Some \<lparr>f_search = Some ''stan'', f_location = Some ''usa'', f_degreeLevel = Some Bachelor\<rparr>)
       = Inr [exStanford]
   \<and> filter (\<lambda>u.
          (\<exists>n pre suf. name u = Some n
             \<and> exToLowerCase n = pre @ exToLowerCase ''stan'' @ suf)
        \<and> (\<exists>m. location u = Some m \<and> exToLowerCase m = exToLowerCase ''usa'')
        \<and> (\<exists>ps. programs u Bachelor = Some ps \<and> ps \<noteq> [])) [exStanford, exMIT, exEcole]
       = [exStanford]
   \<and> filterUniversities exToLowerCase [exStanford, exMIT, exEcole]
        (Some \<lparr>f_search = Some (CHR 0xE9 # ''cole''), f_location = None, f_degreeLevel = None\<rparr>)
       = Inr [exEcole]
   \<and> filterUniversities exToLowerCase [exStanford, exMIT, exEcole]
        (Some \<lparr>f_search = None, f_location = Some ''usa'', f_degreeLevel = None\<rparr>)
       = Inr [exStanford, exMIT]
   \<and> filterUniversities exToLowerCase [exStanford, exMIT, exEcole]
        (Some \<lparr>f_search = None, f_location = Some ''us'', f_degreeLevel = None\<rparr>) = Inr []
   \<and> filterUniversities exToLowerCase [exStanford, exMIT, exEcole]
        (Some \<lparr>f_search = Some '''', f_location = None, f_degreeLevel = Some PhD\<rparr>) = Inr []"
proof -
  let ?us = "[exStanford, exMIT, exEcole]"
  let ?f = "\<lparr>f_search = Some ''stan'', f_location = Some ''usa'', f_degreeLevel = Some Bachelor\<rparr>"
  note defs = filterUniversities_def matches_def matchesSearch_def matchesLocation_def
    matchesDegree_def truthy_def ex_universities
  have nm: "None \<notin> set (map name ?us)" "None \<notin> set (map location ?us)"
    by (simp_all add: ex_universities)
  have a: "filterUniversities exToLowerCase ?us (Some ?f) = Inr [exStanford]"
    using ex_search ex_search_more by (simp add: defs)
  have b: "filterUniversities exToLowerCase ?us
        (Some \<lparr>f_search = Some (CHR 0xE9 # ''cole''), f_location = None, f_degreeLevel = None\<rparr>)
       = Inr [exEcole]"
    using ex_search ex_search_more by (simp add: defs)
  have c: "filterUniversities exToLowerCase ?us
        (Some \<lparr>f_search = None, f_location = Some ''usa'', f_degreeLevel = None\<rparr>)
       = Inr [exStanford, exMIT]"
    using ex_search ex_search_more by (simp add: defs)
  have d: "filterUniversities exToLowerCase ?us
        (Some \<lparr>f_search = None, f_location = Some ''us'', f_degreeLevel = None\<rparr>) = Inr []"
    using ex_search ex_search_more by (simp add: defs)
  have e: "filterUniversities exToLowerCase ?us
        (Some \<lparr>f_search = Some '''', f_location = None, f_degreeLevel = Some PhD\<rparr>) = Inr []"
    by (simp add: defs)
  have h: "(truthy (f_search ?f) \<longrightarrow> (\<forall>u \<in> set ?us. name u \<noteq> None))
      \<and> (truthy (f_location ?f) \<longrightarrow> (\<forall>u \<in> set ?us. location u \<noteq> None))"
    by (simp add: ex_universities)
  from filter_is_conjunction[of ?f ?us exToLowerCase] h
  have "filterUniversities exToLowerCase ?us (Some ?f) =
      Inr (filter (\<lambda>u.
          (\<exists>n pre suf. name u = Some n
             \<and> exToLowerCase n = pre @ exToLowerCase ''stan'' @ suf)
        \<and> (\<exists>m. location u = Some m \<and> exToLowerCase m = exToLowerCase ''usa'')
        \<and> (\<exists>ps. programs u Bachelor = Some ps \<and> ps \<noteq> [])) ?us)"
    by simp
  with a have g: "filter (\<lambda>u.
          (\<exists>n pre suf. name u = Some n
             \<and> exToLowerCase n = pre @ exToLowerCase ''stan'' @ suf)
        \<and> (\<exists>m. location u = Some m \<and> exToLowerCase m = exToLowerCase ''usa'')
        \<and> (\<exists>ps. programs u Bachelor = Some ps \<and> ps \<noteq> [])) ?us = [exStanford]"
    by simp
  from nm a g b c d e show ?thesis by blast
qed

section \<open>A slot that does not parse\<close>

text \<open>
  C9 as stated does not hold: what a read writes back over unparsable content is the
  module's \<open>inMemoryStore\<close>, not the seed. After a create in the same session, the slot is
  overwritten with the seed record and the created one, and the read returns both.
\<close>

theorem corrupt_slot_not_reseeded_counterexample:
  "localStorage exCorrupted = Some Corrupt
   \<and> map uid (fst (readStore exCorrupted)) = [''u1'', ''id-7'']
   \<and> localStorage (snd (readStore exCorrupted)) = Some (Parsed (fst (readStore exCorrupted)))
   \<and> map uid (map normalizeUniversity [exStanford]) = [''u1'']
   \<and> fst (readStore exCorrupted) \<noteq> map normalizeUniversity [exStanford]
   \<and> localStorage (snd (readStore exCorrupted))
       \<noteq> Some (Parsed (map normalizeUniversity [exStanford]))"
proof -
  have c: "localStorage exCorrupted = Some Corrupt"
    by (simp add: exCorrupted_def)
  have u: "uid (newUniversity exPayload exEnv) = ''id-7''"
    by (simp add: newUniversity_def exPayload_def noPayload_def nextId_exEnv)
  have s: "uid exStanford = ''u1''"
    by (simp add: exStanford_def)
  show ?thesis
    using c u s by (simp add: readStore_exCorrupted exStanford_normalized)
qed

text \<open>
  C9, amended. When the slot's content does not parse, a read raises nothing: it
  overwrites the slot with the current in-memory collection and returns that collection,
  and so does the list operation. When the module has just been loaded, that collection is
  the normalized seed dataset.
\<close>

theorem corrupt_slot_healed_from_memory:
  "(localStorage s = Some Corrupt \<longrightarrow>
      readStore s = (inMemoryStore s, s\<lparr>localStorage := Some (Parsed (inMemoryStore s))\<rparr>)
      \<and> getUniversities lc None s
          = (Inr (inMemoryStore s), s\<lparr>localStorage := Some (Parsed (inMemoryStore s))\<rparr>))
   \<and> readStore (initialStore seed (Some Corrupt))
       = (map normalizeUniversity seed,
          \<lparr>inMemoryStore = map normalizeUniversity seed,
           localStorage = Some (Parsed (map normalizeUniversity seed))\<rparr>)"
  by (simp add: getUniversities_None readStore_def initialStore_def clone_def)

theorem corrupt_slot_healed_from_memory_witness:
  "localStorage exCorrupted = Some Corrupt
   \<and> readStore exCorrupted
       = (inMemoryStore exCorrupted,
          exCorrupted\<lparr>localStorage := Some (Parsed (inMemoryStore exCorrupted))\<rparr>)
   \<and> map uid (inMemoryStore exCorrupted) = [''u1'', ''id-7'']"
proof -
  have c: "localStorage exCorrupted = Some Corrupt"
    by (simp add: exCorrupted_def)
  have m: "fst (readStore exCorrupted) = inMemoryStore exCorrupted"
    using c by (simp add: readStore_fst)
  have u: "uid (newUniversity exPayload exEnv) = ''id-7''" "uid exStanford = ''u1''"
    by (simp_all add: newUniversity_def exPayload_def noPayload_def exStanford_def nextId_exEnv)
  have i: "map uid (inMemoryStore exCorrupted) = [''u1'', ''id-7'']"
    using u by (simp add: m[symmetric] readStore_exCorrupted)
  from corrupt_slot_healed_from_memory[of exCorrupted exToLowerCase] c i show ?thesis
    by simp
qed

end
